theory Spec2Isabelle
  imports Complex_Main "HOL-Library.AList"
begin

section \<open>Values, exceptions and dictionaries\<close>

text \<open>
  The module \<^verbatim>\<open>utils/grid_transformer.py\<close> defines one class, \<^verbatim>\<open>GridTransformer\<close>.
  Its methods are embedded below as functions on an explicit state.

  Numbers are exact: a Python or numpy float is a \<^typ>\<open>real\<close>, so rounding is not part of
  the model. Two special floats that the code produces and tests are kept as constructors
  of their own: \<^verbatim>\<open>numpy.nan\<close> among the field values and \<^verbatim>\<open>numpy.inf\<close> among the distances.
\<close>

datatype pyval =
    PyNone                \<comment> \<open>Python \<^verbatim>\<open>None\<close>\<close>
  | Val real              \<comment> \<open>a number\<close>
  | NaN                   \<comment> \<open>\<^verbatim>\<open>numpy.nan\<close>, the missing sentinel\<close>

datatype distance =
    Fin real              \<comment> \<open>a finite distance\<close>
  | PInf                  \<comment> \<open>\<^verbatim>\<open>numpy.inf\<close>\<close>

datatype axis = X_axis | Y_axis | Z_axis

text \<open>
  Every \<^verbatim>\<open>raise\<close> of the module and every exception of a library call it makes is a
  constructor; the comment gives the Python exception class.
\<close>

datatype error =
    Argument_type string            \<comment> \<open>TypeError, a parameter that had to be a \<^verbatim>\<open>str\<close>\<close>
  | Grid_already_exists string      \<comment> \<open>KeyError, \<^verbatim>\<open>add_grid\<close>\<close>
  | Grid_does_not_exist string      \<comment> \<open>KeyError, \<^verbatim>\<open>update_grid\<close>\<close>
  | Key_missing string              \<comment> \<open>KeyError of \<^verbatim>\<open>del d[k]\<close> and \<^verbatim>\<open>d[k]\<close> on a dictionary of names\<close>
  | Grid_not_found string           \<comment> \<open>KeyError, grid lookup of the other methods\<close>
  | Not_overlapping axis            \<comment> \<open>ValueError, bounding boxes do not intersect\<close>
  | Zero_size_array                 \<comment> \<open>ValueError, numpy reduction of an empty array\<close>
  | Query_rejected                  \<comment> \<open>ValueError, \<^verbatim>\<open>KDTree.query\<close> refuses its arguments\<close>
  | Sections_rejected               \<comment> \<open>ValueError, \<^verbatim>\<open>numpy.array_split\<close> into no sections\<close>
  | Index_out_of_range              \<comment> \<open>IndexError, list index\<close>
  | Value_not_found string          \<comment> \<open>KeyError, \<^verbatim>\<open>transition\<close>: no values of that name\<close>
  | No_transformation string string \<comment> \<open>KeyError, \<^verbatim>\<open>transition\<close>: no table for the pair\<close>
  | Node_missing nat                \<comment> \<open>KeyError of \<^verbatim>\<open>d[node]\<close> on a dictionary of nodes\<close>
  | Operand_type                    \<comment> \<open>TypeError, arithmetic on \<^verbatim>\<open>None\<close>\<close>
  | Shape_mismatch                  \<comment> \<open>ValueError, numpy broadcasting\<close>
  | Incomplete_values string        \<comment> \<open>raised by \<^verbatim>\<open>Grid.check_value_set_completeness\<close>\<close>
  | Rendering_failed                \<comment> \<open>any exception of the matplotlib calls\<close>

text \<open>
  A Python dictionary keeps its keys in insertion order, so it is an association list with
  distinct keys: \<^const>\<open>map_of\<close> reads it, \<^const>\<open>AList.update\<close> is \<^verbatim>\<open>d[k] = v\<close> (in place for a
  key that is there, at the end for a new one) and \<^const>\<open>AList.delete\<close> is \<^verbatim>\<open>del d[k]\<close>.
\<close>

type_synonym ('k, 'v) dict = "('k \<times> 'v) list"

definition keys :: "('k, 'v) dict \<Rightarrow> 'k list" where
  "keys d = map fst d"

definition has_key :: "'k \<Rightarrow> ('k, 'v) dict \<Rightarrow> bool" where
  "has_key k d = (k \<in> set (keys d))"

text \<open>
  Python list indexing \<^verbatim>\<open>xs[i]\<close>: an index from \<open>-len(xs)\<close> up to \<open>-1\<close> counts from the end,
  and an index outside \<open>-len(xs) .. len(xs) - 1\<close> raises.
\<close>

definition py_index :: "'a list \<Rightarrow> int \<Rightarrow> error + 'a" where
  "py_index xs i =
     (if 0 \<le> i \<and> i < int (length xs) then Inr (xs ! nat i)
      else if i < 0 \<and> - int (length xs) \<le> i then Inr (xs ! nat (int (length xs) + i))
      else Inl Index_out_of_range)"

section \<open>Grids\<close>

text \<open>
  Modelled from the spec: the class \<^verbatim>\<open>Grid\<close> of \<^verbatim>\<open>utils/grid.py\<close>, which the module imports
  and which is not among the sources. A node has a 3D coordinate and a mapping from field
  name to value, where a name without entry is a field never assigned on that node. A grid
  is an ordered collection of nodes under unique identifiers; \<^verbatim>\<open>coordinates()\<close> and
  \<^verbatim>\<open>node_ids()\<close> follow that one order, so that row \<open>j\<close> of the coordinate array belongs to
  the \<open>j\<close>-th identifier.
\<close>

type_synonym node_id = nat
type_synonym point = "real \<times> real \<times> real"

record Node =
  coordinate :: point
  node_values :: "(string, pyval) dict"

record Grid =
  nodes :: "(node_id, Node) dict"

text \<open>Modelled from the spec: \<^verbatim>\<open>Grid.get_coordinates_array\<close>, one row per node in the grid's order.\<close>

definition get_coordinates_array :: "Grid \<Rightarrow> point list" where
  "get_coordinates_array g = map (\<lambda>(i, n). coordinate n) (nodes g)"

text \<open>
  Modelled from the spec: \<^verbatim>\<open>Grid.get_node_values\<close>, the mapping from node identifier to the
  value of the named field, over the nodes that have one. It is empty (and so false as a
  Python condition) for a field that no node has.
\<close>

definition get_node_values :: "Grid \<Rightarrow> string \<Rightarrow> (node_id, pyval) dict" where
  "get_node_values g value_name =
     concat (map (\<lambda>(i, n). case map_of (node_values n) value_name of
                               None \<Rightarrow> [] | Some v \<Rightarrow> [(i, v)]) (nodes g))"

text \<open>Modelled from the spec: \<^verbatim>\<open>Node.set_value\<close> assigns or overwrites one field of one node.\<close>

definition set_value :: "string \<Rightarrow> pyval \<Rightarrow> Node \<Rightarrow> Node" where
  "set_value value_name v n = n\<lparr>node_values := AList.update value_name v (node_values n)\<rparr>"

text \<open>
  Modelled from the spec: \<^verbatim>\<open>Grid.check_value_set_completeness\<close> fails when some node has no
  entry at all for the field; an entry holding the missing sentinel counts as set.
\<close>

definition check_value_set_completeness :: "Grid \<Rightarrow> string \<Rightarrow> error + unit" where
  "check_value_set_completeness g value_name =
     (if list_all (\<lambda>(i, n). has_key value_name (node_values n)) (nodes g)
      then Inr () else Inl (Incomplete_values value_name))"

section \<open>The state of a GridTransformer\<close>

text \<open>
  A neighbour record is \<^verbatim>\<open>{'node_number': ..., 'distance': ...}\<close>. A correspondence table
  maps each target node to \<^verbatim>\<open>None\<close> or to a list of such records. \<^verbatim>\<open>self.grids[name]\<close> holds
  under \<^verbatim>\<open>'grid'\<close> a reference to a \<^verbatim>\<open>Grid\<close> object and under \<^verbatim>\<open>'transform'\<close> the tables by
  source name. The \<^verbatim>\<open>Grid\<close> objects belong to the caller and are shared by reference, so the
  state carries the object store next to \<^verbatim>\<open>self.grids\<close>: two names may hold one object.
  Of the log, the records that carry a result are kept (debug lines are left out).
\<close>

record neighbor =
  node_number :: node_id
  distance :: distance

type_synonym table = "(node_id, neighbor list option) dict"

type_synonym ref = nat

record entry =
  transform :: "(string, table) dict"
  grid :: ref

datatype level = Info | Warning | Error | Critical

datatype event =
    Overlap_failure axis                          \<comment> \<open>grids not overlapping in a direction\<close>
  | Lonely_warning nat string string distance     \<comment> \<open>no neighbours found for so many nodes\<close>
  | Neighbors_found string string
  | Transition_successful string string string
  | Statistics_for string nat                     \<comment> \<open>grid name and its number of nodes\<close>
  | Neighborhood string "distance list" nat       \<comment> \<open>source name, distance array, lonely count\<close>
  | End_of_statistics
  | Validation_report
  | Execution_aborted error

record transformer =
  grids :: "(string, entry) dict"
  heap :: "ref \<Rightarrow> Grid"
  logged :: "(level \<times> event) list"

definition emit :: "level \<Rightarrow> event \<Rightarrow> transformer \<Rightarrow> transformer" where
  "emit l e st = st\<lparr>logged := logged st @ [(l, e)]\<rparr>"

type_synonym 'a outcome = "(error + 'a) \<times> transformer"

section \<open>Registering grids\<close>

text \<open>
  The \<^verbatim>\<open>isinstance\<close> guards at the head of the methods hold by typing: a name is a
  \<^typ>\<open>string\<close>, a grid is a reference to a \<^typ>\<open>Grid\<close>, a number of neighbours is a \<^typ>\<open>nat\<close>.
  The one exception is \<^verbatim>\<open>transformation_validation\<close>, where the guards are the only
  statements outside the \<^verbatim>\<open>try\<close>: there they are part of the function.
\<close>

definition add_grid :: "ref \<Rightarrow> string \<Rightarrow> transformer \<Rightarrow> bool outcome" where
  "add_grid g grid_name st =
     (if has_key grid_name (grids st) then (Inl (Grid_already_exists grid_name), st)
      else (Inr True,
            st\<lparr>grids := AList.update grid_name \<lparr>transform = [], grid = g\<rparr> (grids st)\<rparr>))"

text \<open>
  \<^verbatim>\<open>update_grid\<close> deletes the key \<^verbatim>\<open>'grid_name'\<close>, a string literal, and then calls
  \<^verbatim>\<open>add_grid\<close> with the name it was given.
\<close>

definition update_grid :: "ref \<Rightarrow> string \<Rightarrow> transformer \<Rightarrow> bool outcome" where
  "update_grid g grid_name st =
     (if \<not> has_key grid_name (grids st) then (Inl (Grid_does_not_exist grid_name), st)
      else if \<not> has_key ''grid_name'' (grids st) then (Inl (Key_missing ''grid_name''), st)
      else (case add_grid g grid_name (st\<lparr>grids := AList.delete ''grid_name'' (grids st)\<rparr>) of
              (Inl e, st') \<Rightarrow> (Inl e, st')
            | (Inr b, st') \<Rightarrow> (Inr True, st')))"

section \<open>The spatial index\<close>

text \<open>
  \<^verbatim>\<open>scipy.spatial.KDTree\<close> is a library, modelled from its documentation and from the spec's
  SpatialIndex: the search is exact, by Euclidean distance, and a tie is broken by ascending
  index. \<^verbatim>\<open>query(x, k, eps, p, distance_upper_bound)\<close> gives for every query point \<open>k\<close>
  pairs of a distance and an index into the indexed points, nearest first; only points
  closer than \<^verbatim>\<open>distance_upper_bound\<close> are found, and a missing neighbour is the pair of an
  infinite distance and the number of indexed points. With \<open>k = 1\<close> the two result arrays
  are one-dimensional, otherwise they have one row of \<open>k\<close> entries per query point. The
  parameter \<^verbatim>\<open>eps\<close> allows an approximate answer; the model returns the exact one, which
  every \<^verbatim>\<open>eps\<close> admits. The two arrays \<^verbatim>\<open>dist\<close> and \<^verbatim>\<open>points\<close> are kept zipped.

  \<^verbatim>\<open>numpy.float32\<close> rounds to single precision; with exact numbers it changes nothing.
\<close>

definition float32 :: "point \<Rightarrow> point" where
  "float32 p = p"

definition euclidean :: "point \<Rightarrow> point \<Rightarrow> real" where
  "euclidean p q =
     (case p of (px, py, pz) \<Rightarrow> case q of (qx, qy, qz) \<Rightarrow>
        sqrt ((px - qx)\<^sup>2 + (py - qy)\<^sup>2 + (pz - qz)\<^sup>2))"

definition closer_than :: "distance \<Rightarrow> real \<Rightarrow> bool" where
  "closer_than bound d = (case bound of PInf \<Rightarrow> True | Fin b \<Rightarrow> d < b)"

definition candidates :: "point list \<Rightarrow> point \<Rightarrow> (real \<times> nat) list" where
  "candidates tree x = sort_key fst (zip (map (euclidean x) tree) [0..<length tree])"

definition query_point :: "point list \<Rightarrow> nat \<Rightarrow> distance \<Rightarrow> point \<Rightarrow> (distance \<times> nat) list" where
  "query_point tree k bound x =
     (let found = take k (filter (\<lambda>(d, j). closer_than bound d) (candidates tree x))
      in map (\<lambda>(d, j). (Fin d, j)) found @ replicate (k - length found) (PInf, length tree))"

datatype query_result =
    Flat "(distance \<times> nat) list"          \<comment> \<open>arrays of shape \<open>(n,)\<close>\<close>
  | Rows "(distance \<times> nat) list list"     \<comment> \<open>arrays of shape \<open>(n, k)\<close>\<close>

definition tree_query ::
  "point list \<Rightarrow> point list \<Rightarrow> nat \<Rightarrow> distance \<Rightarrow> distance \<Rightarrow> error + query_result" where
  "tree_query tree xs k eps distance_upper_bound =
     (if k = 0 then Inl Query_rejected
      else if k = 1 then Inr (Flat (concat (map (query_point tree 1 distance_upper_bound) xs)))
      else Inr (Rows (map (query_point tree k distance_upper_bound) xs)))"

text \<open>\<^verbatim>\<open>numpy.concatenate\<close> along axis 0 and \<^verbatim>\<open>numpy.array_split\<close> into a number of sections.\<close>

definition concatenate :: "query_result \<Rightarrow> query_result \<Rightarrow> error + query_result" where
  "concatenate a b =
     (case (a, b) of
        (Flat u, Flat v) \<Rightarrow> Inr (Flat (u @ v))
      | (Rows u, Rows v) \<Rightarrow> Inr (Rows (u @ v))
      | _ \<Rightarrow> Inl Shape_mismatch)"

fun split_sizes :: "'a list \<Rightarrow> nat list \<Rightarrow> 'a list list" where
  "split_sizes xs [] = []"
| "split_sizes xs (n # ns) = take n xs # split_sizes (drop n xs) ns"

definition array_split :: "'a list \<Rightarrow> nat \<Rightarrow> 'a list list" where
  "array_split xs sections =
     (let each_section = length xs div sections; extras = length xs mod sections
      in split_sizes xs
           (replicate extras (each_section + 1) @ replicate (sections - extras) each_section))"

section \<open>find\_nearest\_neighbors\<close>

text \<open>\<^verbatim>\<open>numpy.amin\<close> and \<^verbatim>\<open>numpy.amax\<close> of one coordinate column; an empty column has neither.\<close>

definition amin :: "real list \<Rightarrow> error + real" where
  "amin xs = (case xs of [] \<Rightarrow> Inl Zero_size_array | y # ys \<Rightarrow> Inr (fold min ys y))"

definition amax :: "real list \<Rightarrow> error + real" where
  "amax xs = (case xs of [] \<Rightarrow> Inl Zero_size_array | y # ys \<Rightarrow> Inr (fold max ys y))"

definition column :: "axis \<Rightarrow> point list \<Rightarrow> real list" where
  "column a ps =
     map (\<lambda>(x, y, z). case a of X_axis \<Rightarrow> x | Y_axis \<Rightarrow> y | Z_axis \<Rightarrow> z) ps"

text \<open>The minima and maxima of a coordinate array, in the order x, y, z.\<close>

definition dimensions :: "point list \<Rightarrow> error + (axis \<Rightarrow> real \<times> real)" where
  "dimensions ps =
     (if ps = [] then Inl Zero_size_array
      else Inr (\<lambda>a. (fold min (tl (column a ps)) (hd (column a ps)),
                     fold max (tl (column a ps)) (hd (column a ps)))))"

definition overlapping :: "(axis \<Rightarrow> real \<times> real) \<Rightarrow> (axis \<Rightarrow> real \<times> real) \<Rightarrow> axis \<Rightarrow> bool" where
  "overlapping d1 d2 a = (fst (d1 a) \<le> snd (d2 a) \<and> snd (d1 a) \<ge> fst (d2 a))"

text \<open>The three overlap checks, in the order x, y, z: the first axis that fails.\<close>

definition overlap_failure ::
  "(axis \<Rightarrow> real \<times> real) \<Rightarrow> (axis \<Rightarrow> real \<times> real) \<Rightarrow> axis option" where
  "overlap_failure d1 d2 =
     (if \<not> overlapping d1 d2 X_axis then Some X_axis
      else if \<not> overlapping d1 d2 Y_axis then Some Y_axis
      else if \<not> overlapping d1 d2 Z_axis then Some Z_axis
      else None)"

text \<open>
  The branch that is never taken: \<^verbatim>\<open>tree.query(numpy.float32(grid_2_coordinates),
  neighbors_quantity, distance_max)\<close>. The third positional parameter of \<^verbatim>\<open>query\<close> is \<^verbatim>\<open>eps\<close>,
  so the call leaves \<^verbatim>\<open>distance_upper_bound\<close> at its default, infinity.
\<close>

definition single_shot_query ::
  "point list \<Rightarrow> point list \<Rightarrow> nat \<Rightarrow> distance \<Rightarrow> error + query_result" where
  "single_shot_query tree grid_2_coordinates neighbors_quantity distance_max =
     tree_query tree (map float32 grid_2_coordinates) neighbors_quantity distance_max PInf"

text \<open>
  The branch that is taken: the loop over the sections, with its counter \<open>i\<close> and the
  arrays concatenated so far. The local constant \<^verbatim>\<open>splits = 10\<close> is a parameter of the loop
  and is set to ten by the method.
\<close>

fun query_sections ::
  "point list \<Rightarrow> nat \<Rightarrow> distance \<Rightarrow> point list list \<Rightarrow> nat \<Rightarrow> query_result
     \<Rightarrow> error + query_result" where
  "query_sections tree k distance_max [] i acc = Inr acc"
| "query_sections tree k distance_max (arr # arrs) i acc =
     (case tree_query tree (map float32 arr) k (Fin 0) distance_max of
        Inl e \<Rightarrow> Inl e
      | Inr tmp \<Rightarrow>
          if i + 1 = 1 then query_sections tree k distance_max arrs (i + 1) tmp
          else (case concatenate acc tmp of
                  Inl e \<Rightarrow> Inl e
                | Inr joined \<Rightarrow> query_sections tree k distance_max arrs (i + 1) joined))"

definition chunked_query ::
  "nat \<Rightarrow> point list \<Rightarrow> point list \<Rightarrow> nat \<Rightarrow> distance \<Rightarrow> error + query_result" where
  "chunked_query splits tree grid_2_coordinates neighbors_quantity distance_max =
     (if splits = 0 then Inl Sections_rejected
      else query_sections tree neighbors_quantity distance_max
             (array_split (map float32 grid_2_coordinates) splits) 0 (Flat []))"

text \<open>\<^verbatim>\<open>distance_max != numpy.inf\<close> and \<^verbatim>\<open>distance > distance_max\<close>.\<close>

definition exceeds :: "distance \<Rightarrow> distance \<Rightarrow> bool" where
  "exceeds d distance_max =
     (case distance_max of
        PInf \<Rightarrow> False
      | Fin m \<Rightarrow> (case d of PInf \<Rightarrow> True | Fin r \<Rightarrow> r > m))"

text \<open>
  The inner loop over the \<open>k\<close> neighbours of one target node. The source node is
  \<^verbatim>\<open>grid_1_nodes[points[i][k]-1]\<close>: the index that the tree returned, less one.
\<close>

fun check_neighbors ::
  "node_id list \<Rightarrow> distance \<Rightarrow> (distance \<times> nat) list \<Rightarrow> neighbor list
     \<Rightarrow> error + neighbor list" where
  "check_neighbors grid_1_nodes distance_max [] acc = Inr acc"
| "check_neighbors grid_1_nodes distance_max ((d, p) # rest) acc =
     (case py_index grid_1_nodes (int p - 1) of
        Inl e \<Rightarrow> Inl e
      | Inr node \<Rightarrow>
          if exceeds d distance_max then check_neighbors grid_1_nodes distance_max rest acc
          else check_neighbors grid_1_nodes distance_max rest
                 (acc @ [\<lparr>node_number = node, distance = d\<rparr>]))"

datatype result_row =
    Scalar "distance \<times> nat"            \<comment> \<open>\<^verbatim>\<open>dist[i]\<close> of one-dimensional arrays\<close>
  | Vector "(distance \<times> nat) list"     \<comment> \<open>\<^verbatim>\<open>dist[i]\<close> of two-dimensional arrays\<close>

definition rows_of :: "query_result \<Rightarrow> result_row list" where
  "rows_of r = (case r of Flat xs \<Rightarrow> map Scalar xs | Rows xss \<Rightarrow> map Vector xss)"

text \<open>
  The loop \<^verbatim>\<open>for i in range(len(dist))\<close> with \<^verbatim>\<open>transform_dict\<close> and \<^verbatim>\<open>count_lonely_nodes\<close>. In
  the one-dimensional branch the \<^verbatim>\<open>continue\<close> of the distance check leaves the iteration
  of the outer loop, after the entry was initialised with the empty list.
\<close>

fun build_table ::
  "node_id list \<Rightarrow> node_id list \<Rightarrow> distance \<Rightarrow> result_row list \<Rightarrow> nat \<Rightarrow> table \<times> nat
     \<Rightarrow> error + table \<times> nat" where
  "build_table grid_1_nodes grid_2_nodes distance_max [] i (transform_dict, count) =
     Inr (transform_dict, count)"
| "build_table grid_1_nodes grid_2_nodes distance_max (row # rows) i (transform_dict, count) =
     (case py_index grid_2_nodes (int i) of
        Inl e \<Rightarrow> Inl e
      | Inr key \<Rightarrow>
         (case row of
            Vector ns \<Rightarrow>
              (case check_neighbors grid_1_nodes distance_max ns [] of
                 Inl e \<Rightarrow> Inl e
               | Inr found \<Rightarrow>
                   if length found = 0
                   then build_table grid_1_nodes grid_2_nodes distance_max rows (i + 1)
                          (AList.update key None transform_dict, count + 1)
                   else build_table grid_1_nodes grid_2_nodes distance_max rows (i + 1)
                          (AList.update key (Some found) transform_dict, count))
          | Scalar (d, p) \<Rightarrow>
              (case py_index grid_1_nodes (int p - 1) of
                 Inl e \<Rightarrow> Inl e
               | Inr node \<Rightarrow>
                   if exceeds d distance_max
                   then build_table grid_1_nodes grid_2_nodes distance_max rows (i + 1)
                          (AList.update key (Some []) transform_dict, count)
                   else build_table grid_1_nodes grid_2_nodes distance_max rows (i + 1)
                          (AList.update key (Some [\<lparr>node_number = node, distance = d\<rparr>])
                             transform_dict, count))))"

text \<open>The part of the method after the lookups of the two grids.\<close>

definition store_table :: "string \<Rightarrow> string \<Rightarrow> table \<Rightarrow> transformer \<Rightarrow> transformer" where
  "store_table grid_name_1 grid_name_2 transform_dict st =
     (case map_of (grids st) grid_name_2 of
        None \<Rightarrow> st
      | Some e \<Rightarrow>
          st\<lparr>grids := AList.update grid_name_2
                (e\<lparr>transform := AList.update grid_name_1 transform_dict (transform e)\<rparr>)
                (grids st)\<rparr>)"

definition find_nearest_neighbors ::
  "string \<Rightarrow> string \<Rightarrow> nat \<Rightarrow> distance \<Rightarrow> transformer \<Rightarrow> bool outcome" where
  "find_nearest_neighbors grid_name_1 grid_name_2 neighbors_quantity distance_max st =
     (case map_of (grids st) grid_name_1 of
        None \<Rightarrow> (Inl (Grid_not_found grid_name_1), st)
      | Some e1 \<Rightarrow>
     (case map_of (grids st) grid_name_2 of
        None \<Rightarrow> (Inl (Grid_not_found grid_name_2), st)
      | Some e2 \<Rightarrow>
     (let grid_1_coordinates = get_coordinates_array (heap st (grid e1));
          grid_1_nodes = keys (nodes (heap st (grid e1)));
          grid_2_coordinates = get_coordinates_array (heap st (grid e2));
          grid_2_nodes = keys (nodes (heap st (grid e2)))
      in
     (case dimensions grid_1_coordinates of
        Inl e \<Rightarrow> (Inl e, st)
      | Inr dim_1 \<Rightarrow>
     (case dimensions grid_2_coordinates of
        Inl e \<Rightarrow> (Inl e, st)
      | Inr dim_2 \<Rightarrow>
     (case overlap_failure dim_1 dim_2 of
        Some a \<Rightarrow> (Inl (Not_overlapping a), emit Error (Overlap_failure a) st)
      | None \<Rightarrow>
     (let tree = map float32 grid_1_coordinates
      in
     (case (if (1::nat) = 2
            then single_shot_query tree grid_2_coordinates neighbors_quantity distance_max
            else chunked_query 10 tree grid_2_coordinates neighbors_quantity distance_max) of
        Inl e \<Rightarrow> (Inl e, st)
      | Inr result \<Rightarrow>
     (case build_table grid_1_nodes grid_2_nodes distance_max (rows_of result) 0 ([], 0) of
        Inl e \<Rightarrow> (Inl e, st)
      | Inr (transform_dict, count_lonely_nodes) \<Rightarrow>
          (Inr True,
           emit Info (Neighbors_found grid_name_1 grid_name_2)
             (store_table grid_name_1 grid_name_2 transform_dict
                (if count_lonely_nodes > 0
                 then emit Warning
                        (Lonely_warning count_lonely_nodes grid_name_1 grid_name_2 distance_max) st
                 else st))))))))))))"

section \<open>transition\<close>

text \<open>
  The arithmetic of the weighted average. \<^verbatim>\<open>1 / distance\<close> is zero for an infinite
  distance; \<^verbatim>\<open>value * 1 / distance\<close> is a TypeError on \<^verbatim>\<open>None\<close> and stays the missing sentinel
  on the missing sentinel.
\<close>

definition reciprocal :: "distance \<Rightarrow> real" where
  "reciprocal d = (case d of Fin r \<Rightarrow> 1 / r | PInf \<Rightarrow> 0)"

definition weighted :: "pyval \<Rightarrow> distance \<Rightarrow> error + pyval" where
  "weighted v d =
     (case v of
        PyNone \<Rightarrow> Inl Operand_type
      | NaN \<Rightarrow> Inr NaN
      | Val x \<Rightarrow> Inr (Val (case d of Fin r \<Rightarrow> x * 1 / r | PInf \<Rightarrow> 0)))"

definition py_add :: "pyval \<Rightarrow> pyval \<Rightarrow> pyval" where
  "py_add a b = (case (a, b) of (Val x, Val y) \<Rightarrow> Val (x + y) | _ \<Rightarrow> NaN)"

definition py_divide :: "pyval \<Rightarrow> real \<Rightarrow> pyval" where
  "py_divide a s = (case a of Val x \<Rightarrow> Val (x / s) | _ \<Rightarrow> NaN)"

text \<open>
  The loop \<^verbatim>\<open>for item in node_dict\<close> with its three variables \<^verbatim>\<open>result\<close>, \<^verbatim>\<open>sum_distance\<close> and
  \<^verbatim>\<open>factor\<close>; a record at distance zero sets the result and leaves the loop.
\<close>

fun average_loop ::
  "(node_id, pyval) dict \<Rightarrow> neighbor list \<Rightarrow> pyval \<times> real \<times> pyval
     \<Rightarrow> error + pyval \<times> real \<times> pyval" where
  "average_loop src_values [] (result, sum_distance, factor) =
     Inr (result, sum_distance, factor)"
| "average_loop src_values (item # items) (result, sum_distance, factor) =
     (case map_of src_values (node_number item) of
        None \<Rightarrow> Inl (Node_missing (node_number item))
      | Some v \<Rightarrow>
          if distance item = Fin 0 then Inr (v, 0, factor)
          else (case weighted v (distance item) of
                  Inl e \<Rightarrow> Inl e
                | Inr w \<Rightarrow>
                    average_loop src_values items
                      (result, sum_distance + reciprocal (distance item), py_add factor w)))"

text \<open>The value that one entry of the table gives its target node.\<close>

definition node_result :: "(node_id, pyval) dict \<Rightarrow> neighbor list option \<Rightarrow> error + pyval" where
  "node_result src_values node_dict =
     (case node_dict of
        None \<Rightarrow> Inr NaN
      | Some [] \<Rightarrow> Inr NaN
      | Some items \<Rightarrow>
          (case average_loop src_values items (PyNone, 0, Val 0) of
             Inl e \<Rightarrow> Inl e
           | Inr (result, sum_distance, factor) \<Rightarrow>
               if \<not> sum_distance = 0 then Inr (py_divide factor sum_distance)
               else Inr result))"

text \<open>
  The loop over the items of the table, writing into the target \<^verbatim>\<open>Grid\<close> object. An exception
  leaves the object with the nodes written so far.
\<close>

fun transfer_nodes ::
  "(node_id, pyval) dict \<Rightarrow> string \<Rightarrow> table \<Rightarrow> Grid \<Rightarrow> (error + unit) \<times> Grid" where
  "transfer_nodes src_values value_name [] g = (Inr (), g)"
| "transfer_nodes src_values value_name ((node, node_dict) # items) g =
     (case node_result src_values node_dict of
        Inl e \<Rightarrow> (Inl e, g)
      | Inr result \<Rightarrow>
          (case map_of (nodes g) node of
             None \<Rightarrow> (Inl (Node_missing node), g)
           | Some n \<Rightarrow>
               transfer_nodes src_values value_name items
                 (g\<lparr>nodes := AList.update node (set_value value_name result n) (nodes g)\<rparr>)))"

definition transition :: "string \<Rightarrow> string \<Rightarrow> string \<Rightarrow> transformer \<Rightarrow> bool outcome" where
  "transition src_grid_name value_name target_grid_name st =
     (case map_of (grids st) src_grid_name of
        None \<Rightarrow> (Inl (Grid_not_found src_grid_name), st)
      | Some src_grid \<Rightarrow>
     (case map_of (grids st) target_grid_name of
        None \<Rightarrow> (Inl (Grid_not_found target_grid_name), st)
      | Some target_grid \<Rightarrow>
     (let src_values = get_node_values (heap st (grid src_grid)) value_name
      in
     if src_values = [] then (Inl (Value_not_found value_name), st)
     else
     (case map_of (transform target_grid) src_grid_name of
        None \<Rightarrow> (Inl (No_transformation src_grid_name target_grid_name), st)
      | Some tbl \<Rightarrow>
     (case transfer_nodes src_values value_name tbl (heap st (grid target_grid)) of
        (Inl e, g) \<Rightarrow> (Inl e, st\<lparr>heap := (heap st)(grid target_grid := g)\<rparr>)
      | (Inr u, g) \<Rightarrow>
     (case check_value_set_completeness g value_name of
        Inl e \<Rightarrow> (Inl e, st\<lparr>heap := (heap st)(grid target_grid := g)\<rparr>)
      | Inr u \<Rightarrow>
          (Inr True,
           emit Info (Transition_successful value_name src_grid_name target_grid_name)
             (st\<lparr>heap := (heap st)(grid target_grid := g)\<rparr>))))))))"

section \<open>nearest\_neighbors\_stat\<close>

text \<open>
  The three nested loops that fill the array \<^verbatim>\<open>distances\<close> and the counter
  \<^verbatim>\<open>count_lonely_nodes\<close> of one table. The logged mean and standard deviation are numpy's of
  the array \<^verbatim>\<open>distances\<close>; the event of the model keeps the array itself.
\<close>

definition positive :: "distance \<Rightarrow> bool" where
  "positive d = (case d of Fin r \<Rightarrow> r > 0 | PInf \<Rightarrow> True)"

fun stat_items :: "neighbor list \<Rightarrow> distance list \<times> nat \<Rightarrow> distance list \<times> nat" where
  "stat_items [] (distances, count) = (distances, count)"
| "stat_items (item # items) (distances, count) =
     (if positive (distance item)
      then stat_items items (distances @ [distance item], count)
      else stat_items items (distances, count + 1))"

fun stat_nodes :: "table \<Rightarrow> distance list \<times> nat \<Rightarrow> distance list \<times> nat" where
  "stat_nodes [] acc = acc"
| "stat_nodes ((node, node_dict) # rest) (distances, count) =
     (case node_dict of
        Some (item # items) \<Rightarrow> stat_nodes rest (stat_items (item # items) (distances, count))
      | _ \<Rightarrow> stat_nodes rest (distances, count + 1))"

definition stat_table :: "table \<Rightarrow> distance list \<times> nat" where
  "stat_table node_list = (if node_list \<noteq> [] then stat_nodes node_list ([], 0) else ([], 1))"

text \<open>
  The loop over the tables of the grid. \<^verbatim>\<open>numpy.ndarray.min\<close> of an empty array raises, after
  the lines before it were logged; the model logs one event per table and none for the
  table that raises.
\<close>

fun stat_loop :: "(string, table) dict \<Rightarrow> transformer \<Rightarrow> unit outcome" where
  "stat_loop [] st = (Inr (), st)"
| "stat_loop ((name, node_list) # rest) st =
     (case stat_table node_list of
        (distances, count_lonely_nodes) \<Rightarrow>
          if distances = [] then (Inl Zero_size_array, st)
          else stat_loop rest (emit Info (Neighborhood name distances count_lonely_nodes) st))"

definition nearest_neighbors_stat :: "string \<Rightarrow> transformer \<Rightarrow> bool outcome" where
  "nearest_neighbors_stat grid_name st =
     (case map_of (grids st) grid_name of
        None \<Rightarrow> (Inl (Grid_not_found grid_name), st)
      | Some e \<Rightarrow>
          (case stat_loop (transform e)
                  (emit Info (Statistics_for grid_name (length (nodes (heap st (grid e))))) st) of
             (Inl err, st') \<Rightarrow> (Inl err, st')
           | (Inr u, st') \<Rightarrow> (Inr True, emit Info End_of_statistics st')))"

section \<open>transformation\_validation\<close>

text \<open>
  The statistics of the round trip are numpy expressions over the two value arrays: the
  difference needs shapes that broadcast and numbers as elements, the extrema need a
  non-empty array. The rendering of the plots is outside the module; whether it raises is a
  parameter.
\<close>

definition round_trip_statistics :: "pyval list \<Rightarrow> pyval list \<Rightarrow> error + unit" where
  "round_trip_statistics data_begin data_end =
     (if length data_begin \<noteq> length data_end \<and> length data_begin \<noteq> 1 \<and> length data_end \<noteq> 1
      then Inl Shape_mismatch
      else if PyNone \<in> set data_begin \<or> PyNone \<in> set data_end then Inl Operand_type
      else if data_begin = [] \<or> data_end = [] then Inl Zero_size_array
      else Inr ())"

definition validation_body ::
  "error option \<Rightarrow> string \<Rightarrow> string \<Rightarrow> string \<Rightarrow> transformer \<Rightarrow> bool outcome" where
  "validation_body rendering src_grid_name value_name target_grid_name st =
     (case map_of (grids st) src_grid_name of
        None \<Rightarrow> (Inl (Key_missing src_grid_name), st)
      | Some src_entry \<Rightarrow>
     (let data_begin = map snd (get_node_values (heap st (grid src_entry)) value_name)
      in
     (case map_of (grids st) target_grid_name of
        None \<Rightarrow> (Inl (Key_missing target_grid_name), st)
      | Some target_entry \<Rightarrow>
     (case transition src_grid_name value_name target_grid_name st of
        (Inl e, st1) \<Rightarrow> (Inl e, st1)
      | (Inr b1, st1) \<Rightarrow>
     (case transition target_grid_name value_name src_grid_name st1 of
        (Inl e, st2) \<Rightarrow> (Inl e, st2)
      | (Inr b2, st2) \<Rightarrow>
     (case map_of (grids st2) src_grid_name of
        None \<Rightarrow> (Inl (Key_missing src_grid_name), st2)
      | Some src_end \<Rightarrow>
     (let data_end = map snd (get_node_values (heap st2 (grid src_end)) value_name)
      in
     (case round_trip_statistics data_begin data_end of
        Inl e \<Rightarrow> (Inl e, st2)
      | Inr u \<Rightarrow>
     (case rendering of
        Some e \<Rightarrow> (Inl e, emit Info Validation_report st2)
      | None \<Rightarrow> (Inr True, emit Info Validation_report st2))))))))))"



section \<open>Example states\<close>

text \<open>
  The worked example of the spec: source grid A with the nodes 0, 1, 2 at \<open>(0,0,0)\<close>,
  \<open>(1,0,0)\<close>, \<open>(2,0,0)\<close> and the field \<open>v = [10, 20, 30]\<close>, target grid B with the nodes 0, 1
  at \<open>(0,0,0)\<close> and \<open>(1.5,0,0)\<close>; the two objects are registered as \<^verbatim>\<open>'A'\<close> and \<^verbatim>\<open>'B'\<close>.
\<close>

definition grid_A :: Grid where
  "grid_A = \<lparr>nodes =
     [(0, \<lparr>coordinate = (0, 0, 0), node_values = [(''v'', Val 10)]\<rparr>),
      (1, \<lparr>coordinate = (1, 0, 0), node_values = [(''v'', Val 20)]\<rparr>),
      (2, \<lparr>coordinate = (2, 0, 0), node_values = [(''v'', Val 30)]\<rparr>)]\<rparr>"

definition grid_B :: Grid where
  "grid_B = \<lparr>nodes =
     [(0, \<lparr>coordinate = (0, 0, 0), node_values = []\<rparr>),
      (1, \<lparr>coordinate = (3 / 2, 0, 0), node_values = []\<rparr>)]\<rparr>"

definition no_grid :: Grid where
  "no_grid = \<lparr>nodes = []\<rparr>"

definition worked_example :: transformer where
  "worked_example =
     \<lparr>grids = [(''A'', \<lparr>transform = [], grid = 1\<rparr>), (''B'', \<lparr>transform = [], grid = 2\<rparr>)],
      heap = (\<lambda>r. no_grid)(1 := grid_A, 2 := grid_B),
      logged = []\<rparr>"

text \<open>A registry that also holds a grid under the name \<^verbatim>\<open>'grid_name'\<close>.\<close>

definition literal_key_example :: transformer where
  "literal_key_example =
     \<lparr>grids = [(''grid_name'', \<lparr>transform = [], grid = 1\<rparr>),
               (''A'', \<lparr>transform = [], grid = 1\<rparr>)],
      heap = (\<lambda>r. no_grid)(1 := grid_A, 2 := grid_B),
      logged = []\<rparr>"

text \<open>The state after \<^verbatim>\<open>find_nearest_neighbors('A', 'B', 2)\<close> on the worked example.\<close>

definition worked_example_neighbors :: transformer where
  "worked_example_neighbors =
     worked_example
       \<lparr>grids := [(''A'', \<lparr>transform = [], grid = 1\<rparr>),
                  (''B'', \<lparr>transform = [(''A'',
                      [(0, Some [\<lparr>node_number = 2, distance = Fin 0\<rparr>,
                                 \<lparr>node_number = 0, distance = Fin 1\<rparr>]),
                       (1, Some [\<lparr>node_number = 0, distance = Fin (1 / 2)\<rparr>,
                                 \<lparr>node_number = 1, distance = Fin (1 / 2)\<rparr>])])],
                    grid = 2\<rparr>)],
         logged := [(Info, Neighbors_found ''A'' ''B'')]\<rparr>"

text \<open>The state after \<^verbatim>\<open>transition('A', 'v', 'B')\<close> on that state.\<close>

definition grid_B_transferred :: Grid where
  "grid_B_transferred = \<lparr>nodes =
     [(0, \<lparr>coordinate = (0, 0, 0), node_values = [(''v'', Val 30)]\<rparr>),
      (1, \<lparr>coordinate = (3 / 2, 0, 0), node_values = [(''v'', Val 15)]\<rparr>)]\<rparr>"

definition worked_example_transferred :: transformer where
  "worked_example_transferred =
     worked_example_neighbors
       \<lparr>heap := (heap worked_example_neighbors)(2 := grid_B_transferred),
         logged := [(Info, Neighbors_found ''A'' ''B''),
                    (Info, Transition_successful ''v'' ''A'' ''B'')]\<rparr>"

text \<open>
  A source grid S with the nodes 0, 1 at \<open>(0,0,0)\<close>, \<open>(2,0,0)\<close> and a target grid T with the
  nodes 0, 1 at \<open>(0,0,0)\<close>, \<open>(1,0,0)\<close>: the second target node is at distance 1 from both
  source nodes.
\<close>

definition grid_S :: Grid where
  "grid_S = \<lparr>nodes =
     [(0, \<lparr>coordinate = (0, 0, 0), node_values = [(''v'', Val 10)]\<rparr>),
      (1, \<lparr>coordinate = (2, 0, 0), node_values = [(''v'', Val 20)]\<rparr>)]\<rparr>"

definition grid_T :: Grid where
  "grid_T = \<lparr>nodes =
     [(0, \<lparr>coordinate = (0, 0, 0), node_values = []\<rparr>),
      (1, \<lparr>coordinate = (1, 0, 0), node_values = []\<rparr>)]\<rparr>"

definition cutoff_example :: transformer where
  "cutoff_example =
     \<lparr>grids = [(''S'', \<lparr>transform = [], grid = 1\<rparr>), (''T'', \<lparr>transform = [], grid = 2\<rparr>)],
      heap = (\<lambda>r. no_grid)(1 := grid_S, 2 := grid_T),
      logged = []\<rparr>"

text \<open>A grid C that lies beside grid A in the x direction.\<close>

definition grid_C :: Grid where
  "grid_C = \<lparr>nodes =
     [(0, \<lparr>coordinate = (5, 0, 0), node_values = []\<rparr>),
      (1, \<lparr>coordinate = (6, 0, 0), node_values = []\<rparr>)]\<rparr>"

definition apart_example :: transformer where
  "apart_example =
     \<lparr>grids = [(''A'', \<lparr>transform = [], grid = 1\<rparr>), (''C'', \<lparr>transform = [], grid = 3\<rparr>)],
      heap = (\<lambda>r. no_grid)(1 := grid_A, 3 := grid_C),
      logged = []\<rparr>"

text \<open>One \<^verbatim>\<open>Grid\<close> object, grid A, registered under the two names \<^verbatim>\<open>'A'\<close> and \<^verbatim>\<open>'A2'\<close>.\<close>

definition alias_example :: transformer where
  "alias_example =
     \<lparr>grids = [(''A'', \<lparr>transform = [], grid = 1\<rparr>), (''A2'', \<lparr>transform = [], grid = 1\<rparr>)],
      heap = (\<lambda>r. no_grid)(1 := grid_A),
      logged = []\<rparr>"

text \<open>The state after \<^verbatim>\<open>find_nearest_neighbors('A', 'A2', 2)\<close> on that registry.\<close>

definition alias_example_neighbors :: transformer where
  "alias_example_neighbors =
     alias_example
       \<lparr>grids := [(''A'', \<lparr>transform = [], grid = 1\<rparr>),
                  (''A2'', \<lparr>transform = [(''A'',
                      [(0, Some [\<lparr>node_number = 2, distance = Fin 0\<rparr>,
                                 \<lparr>node_number = 0, distance = Fin 1\<rparr>]),
                       (1, Some [\<lparr>node_number = 0, distance = Fin 0\<rparr>,
                                 \<lparr>node_number = 2, distance = Fin 1\<rparr>]),
                       (2, Some [\<lparr>node_number = 1, distance = Fin 0\<rparr>,
                                 \<lparr>node_number = 0, distance = Fin 1\<rparr>])])],
                    grid = 1\<rparr>)],
         logged := [(Info, Neighbors_found ''A'' ''A2'')]\<rparr>"

text \<open>
  The state after \<^verbatim>\<open>find_nearest_neighbors('B', 'A', 2)\<close> on the state with the table from A
  to B: both directions of the round trip have their table.
\<close>

definition round_trip_example :: transformer where
  "round_trip_example =
     worked_example_neighbors
       \<lparr>grids := [(''A'', \<lparr>transform = [(''B'',
                      [(0, Some [\<lparr>node_number = 1, distance = Fin 0\<rparr>,
                                 \<lparr>node_number = 0, distance = Fin (3 / 2)\<rparr>]),
                       (1, Some [\<lparr>node_number = 0, distance = Fin (1 / 2)\<rparr>,
                                 \<lparr>node_number = 1, distance = Fin 1\<rparr>]),
                       (2, Some [\<lparr>node_number = 0, distance = Fin (1 / 2)\<rparr>,
                                 \<lparr>node_number = 1, distance = Fin 2\<rparr>])])],
                    grid = 1\<rparr>),
                  (''B'', \<lparr>transform = [(''A'',
                      [(0, Some [\<lparr>node_number = 2, distance = Fin 0\<rparr>,
                                 \<lparr>node_number = 0, distance = Fin 1\<rparr>]),
                       (1, Some [\<lparr>node_number = 0, distance = Fin (1 / 2)\<rparr>,
                                 \<lparr>node_number = 1, distance = Fin (1 / 2)\<rparr>])])],
                    grid = 2\<rparr>)],
         logged := [(Info, Neighbors_found ''A'' ''B''), (Info, Neighbors_found ''B'' ''A'')]\<rparr>"

section \<open>The query in one batch\<close>

text \<open>
  The spec's SpatialIndex answers a query for the whole target point set at once. This is
  that query, stated from the spec's words with the parameters of the chunked path: the
  same number of neighbours and the same distance bound. It is the reference that the
  chunked path of the source is compared with.
\<close>

definition single_batch_query ::
  "point list \<Rightarrow> point list \<Rightarrow> nat \<Rightarrow> distance \<Rightarrow> error + query_result" where
  "single_batch_query tree grid_2_coordinates neighbors_quantity distance_max =
     tree_query tree (map float32 grid_2_coordinates) neighbors_quantity (Fin 0) distance_max"

section \<open>Evaluation of the spatial index on the examples\<close>

lemma sqrt_quarter: "sqrt (1 / 4) = 1 / 2"
  by (simp add: real_sqrt_divide)

lemma sqrt_nine_quarters: "sqrt (9 / 4) = 3 / 2"
  by (rule real_sqrt_unique) (simp_all add: power2_eq_square)

lemma replicate_two_ones: "replicate 2 (Suc 0) = [Suc 0, Suc 0]"
  by (simp add: numeral_2_eq_2)

lemma replicate_eight_zeros: "replicate 8 (0::nat) = [0, 0, 0, 0, 0, 0, 0, 0]"
  by (simp add: eval_nat_numeral)

lemma array_split_two:
  "array_split [a, b] 10 = [[a], [b], [], [], [], [], [], [], [], []]"
  by (simp add: array_split_def replicate_two_ones replicate_eight_zeros)

lemma candidates_A_first:
  "candidates [(0, 0, 0), (1, 0, 0), (2, 0, 0)] (0, 0, 0) = [(0, 0), (1, 1), (2, 2)]"
  by (simp add: candidates_def euclidean_def upt_conv_Cons)

lemma candidates_A_second:
  "candidates [(0, 0, 0), (1, 0, 0), (2, 0, 0)] (3 / 2, 0, 0)
     = [(1 / 2, 1), (1 / 2, 2), (3 / 2, 0)]"
  by (simp add: candidates_def euclidean_def upt_conv_Cons power2_eq_square
        sqrt_quarter sqrt_nine_quarters)

lemma query_A_first:
  "query_point [(0, 0, 0), (1, 0, 0), (2, 0, 0)] 2 PInf (0, 0, 0) = [(Fin 0, 0), (Fin 1, 1)]"
  by (simp add: query_point_def candidates_A_first closer_than_def eval_nat_numeral)

lemma query_A_second:
  "query_point [(0, 0, 0), (1, 0, 0), (2, 0, 0)] 2 PInf (3 / 2, 0, 0)
     = [(Fin (1 / 2), 1), (Fin (1 / 2), 2)]"
  by (simp add: query_point_def candidates_A_second closer_than_def eval_nat_numeral)

lemma chunked_query_worked_example:
  "chunked_query 10 [(0, 0, 0), (1, 0, 0), (2, 0, 0)] [(0, 0, 0), (3 / 2, 0, 0)] 2 PInf
     = Inr (Rows [[(Fin 0, 0), (Fin 1, 1)], [(Fin (1 / 2), 1), (Fin (1 / 2), 2)]])"
  by (simp add: chunked_query_def array_split_two float32_def tree_query_def concatenate_def
        query_A_first query_A_second)

lemma neighbors_worked_example:
  "find_nearest_neighbors ''A'' ''B'' 2 PInf worked_example = (Inr True, worked_example_neighbors)"
  by (simp add: find_nearest_neighbors_def worked_example_def worked_example_neighbors_def
        grid_A_def grid_B_def get_coordinates_array_def keys_def dimensions_def column_def
        overlap_failure_def overlapping_def float32_def chunked_query_worked_example rows_of_def
        py_index_def exceeds_def store_table_def emit_def)

lemma transition_worked_example:
  "transition ''A'' ''v'' ''B'' worked_example_neighbors = (Inr True, worked_example_transferred)"
  by (simp add: worked_example_def worked_example_neighbors_def worked_example_transferred_def
        grid_B_transferred_def transition_def get_node_values_def grid_A_def grid_B_def
        node_result_def weighted_def py_add_def py_divide_def reciprocal_def set_value_def
        check_value_set_completeness_def has_key_def keys_def emit_def)

lemma source_values_worked_example:
  "get_node_values (heap worked_example_neighbors 1) ''v'' = [(0, Val 10), (1, Val 20), (2, Val 30)]"
  by (simp add: worked_example_neighbors_def worked_example_def get_node_values_def grid_A_def)

lemma neighbors_grids:
  "map_of (grids worked_example_neighbors) ''A'' = Some \<lparr>transform = [], grid = 1\<rparr>"
  "map_of (grids worked_example_neighbors) ''B'' =
     Some \<lparr>transform = [(''A'',
              [(0, Some [\<lparr>node_number = 2, distance = Fin 0\<rparr>,
                         \<lparr>node_number = 0, distance = Fin 1\<rparr>]),
               (1, Some [\<lparr>node_number = 0, distance = Fin (1 / 2)\<rparr>,
                         \<lparr>node_number = 1, distance = Fin (1 / 2)\<rparr>])])], grid = 2\<rparr>"
  by (simp_all add: worked_example_neighbors_def)

lemma candidates_S_first:
  "candidates [(0, 0, 0), (2, 0, 0)] (0, 0, 0) = [(0, 0), (2, 1)]"
  by (simp add: candidates_def euclidean_def upt_conv_Cons)

lemma candidates_S_second:
  "candidates [(0, 0, 0), (2, 0, 0)] (1, 0, 0) = [(1, 0), (1, 1)]"
  by (simp add: candidates_def euclidean_def upt_conv_Cons)

lemma chunked_query_cutoff_one_neighbor:
  "chunked_query 10 [(0, 0, 0), (2, 0, 0)] [(0, 0, 0), (1, 0, 0)] (Suc 0) (Fin (1 / 2))
     = Inr (Flat [(Fin 0, 0), (PInf, 2)])"
  by (simp add: chunked_query_def array_split_two float32_def tree_query_def concatenate_def
        query_point_def candidates_S_first candidates_S_second closer_than_def)

lemma chunked_query_cutoff_two_neighbors:
  "chunked_query 10 [(0, 0, 0), (2, 0, 0)] [(0, 0, 0), (1, 0, 0)] 2 (Fin (1 / 2))
     = Inr (Rows [[(Fin 0, 0), (PInf, 2)], [(PInf, 2), (PInf, 2)]])"
  by (simp add: chunked_query_def array_split_two float32_def tree_query_def concatenate_def
        query_point_def candidates_S_first candidates_S_second closer_than_def numeral_2_eq_2)

lemma chunked_query_bound_one:
  "chunked_query 10 [(0, 0, 0), (2, 0, 0)] [(0, 0, 0), (1, 0, 0)] 2 (Fin 1)
     = Inr (Rows [[(Fin 0, 0), (PInf, 2)], [(PInf, 2), (PInf, 2)]])"
  by (simp add: chunked_query_def array_split_two float32_def tree_query_def concatenate_def
        query_point_def candidates_S_first candidates_S_second closer_than_def numeral_2_eq_2)

lemma single_shot_query_bound_one:
  "single_shot_query [(0, 0, 0), (2, 0, 0)] [(0, 0, 0), (1, 0, 0)] 2 (Fin 1)
     = Inr (Rows [[(Fin 0, 0), (Fin 2, 1)], [(Fin 1, 0), (Fin 1, 1)]])"
  by (simp add: single_shot_query_def float32_def tree_query_def
        query_point_def candidates_S_first candidates_S_second closer_than_def numeral_2_eq_2)

lemma neighbors_cutoff_one_neighbor:
  "find_nearest_neighbors ''S'' ''T'' 1 (Fin (1 / 2)) cutoff_example =
     (Inr True,
      cutoff_example
        \<lparr>grids := [(''S'', \<lparr>transform = [], grid = 1\<rparr>),
                   (''T'', \<lparr>transform = [(''S'',
                       [(0, Some [\<lparr>node_number = 1, distance = Fin 0\<rparr>]), (1, Some [])])],
                     grid = 2\<rparr>)],
          logged := [(Info, Neighbors_found ''S'' ''T'')]\<rparr>)"
  by (simp add: find_nearest_neighbors_def cutoff_example_def grid_S_def grid_T_def
        get_coordinates_array_def keys_def dimensions_def column_def overlap_failure_def
        overlapping_def float32_def chunked_query_cutoff_one_neighbor rows_of_def py_index_def
        exceeds_def store_table_def emit_def)

lemma neighbors_cutoff_two_neighbors:
  "find_nearest_neighbors ''S'' ''T'' 2 (Fin (1 / 2)) cutoff_example =
     (Inr True,
      cutoff_example
        \<lparr>grids := [(''S'', \<lparr>transform = [], grid = 1\<rparr>),
                   (''T'', \<lparr>transform = [(''S'',
                       [(0, Some [\<lparr>node_number = 1, distance = Fin 0\<rparr>]), (1, None)])],
                     grid = 2\<rparr>)],
          logged := [(Warning, Lonely_warning 1 ''S'' ''T'' (Fin (1 / 2))),
                     (Info, Neighbors_found ''S'' ''T'')]\<rparr>)"
  by (simp add: find_nearest_neighbors_def cutoff_example_def grid_S_def grid_T_def
        get_coordinates_array_def keys_def dimensions_def column_def overlap_failure_def
        overlapping_def float32_def chunked_query_cutoff_two_neighbors rows_of_def py_index_def
        exceeds_def store_table_def emit_def)

lemma table_chunked_bound_one:
  "build_table [0, 1] [0, 1] (Fin 1)
     (rows_of (Rows [[(Fin 0, 0), (PInf, 2)], [(PInf, 2), (PInf, 2)]])) 0 ([], 0)
   = Inr ([(0, Some [\<lparr>node_number = 1, distance = Fin 0\<rparr>]), (1, None)], 1)"
  by (simp add: rows_of_def py_index_def exceeds_def)

lemma table_single_shot_bound_one:
  "build_table [0, 1] [0, 1] (Fin 1)
     (rows_of (Rows [[(Fin 0, 0), (Fin 2, 1)], [(Fin 1, 0), (Fin 1, 1)]])) 0 ([], 0)
   = Inr ([(0, Some [\<lparr>node_number = 1, distance = Fin 0\<rparr>]),
           (1, Some [\<lparr>node_number = 1, distance = Fin 1\<rparr>,
                     \<lparr>node_number = 0, distance = Fin 1\<rparr>])], 0)"
  by (simp add: rows_of_def py_index_def exceeds_def)

lemma replicate_three_ones: "replicate 3 (Suc 0) = [Suc 0, Suc 0, Suc 0]"
  by (simp add: numeral_3_eq_3)

lemma replicate_seven_zeros: "replicate 7 (0::nat) = [0, 0, 0, 0, 0, 0, 0]"
  by (simp add: eval_nat_numeral)

lemma array_split_three:
  "array_split [a, b, c] 10 = [[a], [b], [c], [], [], [], [], [], [], []]"
  by (simp add: array_split_def replicate_three_ones replicate_seven_zeros)

lemma candidates_A_middle:
  "candidates [(0, 0, 0), (1, 0, 0), (2, 0, 0)] (1, 0, 0) = [(0, 1), (1, 0), (1, 2)]"
  by (simp add: candidates_def euclidean_def upt_conv_Cons)

lemma candidates_A_last:
  "candidates [(0, 0, 0), (1, 0, 0), (2, 0, 0)] (2, 0, 0) = [(0, 2), (1, 1), (2, 0)]"
  by (simp add: candidates_def euclidean_def upt_conv_Cons)

lemma chunked_query_alias:
  "chunked_query 10 [(0, 0, 0), (1, 0, 0), (2, 0, 0)] [(0, 0, 0), (1, 0, 0), (2, 0, 0)] 2 PInf
     = Inr (Rows [[(Fin 0, 0), (Fin 1, 1)], [(Fin 0, 1), (Fin 1, 0)], [(Fin 0, 2), (Fin 1, 1)]])"
  by (simp add: chunked_query_def array_split_three float32_def tree_query_def concatenate_def
        query_point_def candidates_A_first candidates_A_middle candidates_A_last closer_than_def
        numeral_2_eq_2)

lemma neighbors_alias:
  "find_nearest_neighbors ''A'' ''A2'' 2 PInf alias_example = (Inr True, alias_example_neighbors)"
  by (simp add: find_nearest_neighbors_def alias_example_def alias_example_neighbors_def
        grid_A_def get_coordinates_array_def keys_def dimensions_def column_def
        overlap_failure_def overlapping_def float32_def chunked_query_alias rows_of_def
        py_index_def exceeds_def store_table_def emit_def)

lemma statistics_worked_example:
  "nearest_neighbors_stat ''B'' worked_example_neighbors =
     (Inr True,
      worked_example_neighbors
        \<lparr>logged := [(Info, Neighbors_found ''A'' ''B''),
                    (Info, Statistics_for ''B'' 2),
                    (Info, Neighborhood ''A'' [Fin 1, Fin (1 / 2), Fin (1 / 2)] 1),
                    (Info, End_of_statistics)]\<rparr>)"
  by (simp add: nearest_neighbors_stat_def worked_example_neighbors_def worked_example_def
        grid_B_def stat_table_def positive_def emit_def)

lemma candidates_B_first:
  "candidates [(0, 0, 0), (3 / 2, 0, 0)] (0, 0, 0) = [(0, 0), (3 / 2, 1)]"
  by (simp add: candidates_def euclidean_def upt_conv_Cons power2_eq_square sqrt_nine_quarters)

lemma candidates_B_second:
  "candidates [(0, 0, 0), (3 / 2, 0, 0)] (1, 0, 0) = [(1 / 2, 1), (1, 0)]"
  by (simp add: candidates_def euclidean_def upt_conv_Cons power2_eq_square sqrt_quarter)

lemma candidates_B_third:
  "candidates [(0, 0, 0), (3 / 2, 0, 0)] (2, 0, 0) = [(1 / 2, 1), (2, 0)]"
  by (simp add: candidates_def euclidean_def upt_conv_Cons power2_eq_square sqrt_quarter)

lemma chunked_query_back:
  "chunked_query 10 [(0, 0, 0), (3 / 2, 0, 0)] [(0, 0, 0), (1, 0, 0), (2, 0, 0)] 2 PInf
     = Inr (Rows [[(Fin 0, 0), (Fin (3 / 2), 1)], [(Fin (1 / 2), 1), (Fin 1, 0)],
                  [(Fin (1 / 2), 1), (Fin 2, 0)]])"
  by (simp add: chunked_query_def array_split_three float32_def tree_query_def concatenate_def
        query_point_def candidates_B_first candidates_B_second candidates_B_third closer_than_def
        numeral_2_eq_2)

lemma neighbors_back:
  "find_nearest_neighbors ''B'' ''A'' 2 PInf worked_example_neighbors = (Inr True, round_trip_example)"
  by (simp add: find_nearest_neighbors_def worked_example_def worked_example_neighbors_def
        round_trip_example_def grid_A_def grid_B_def get_coordinates_array_def keys_def
        dimensions_def column_def overlap_failure_def overlapping_def float32_def
        chunked_query_back rows_of_def py_index_def exceeds_def store_table_def emit_def)


section \<open>Properties of the loops\<close>

subsection \<open>The bounding boxes\<close>

lemma fold_min_Min: "fold min ys (y::real) = Min (set (y # ys))"
  using Min.set_eq_fold [of y ys] by simp

lemma fold_max_Max: "fold max ys (y::real) = Max (set (y # ys))"
  using Max.set_eq_fold [of y ys] by simp

lemma dimensions_Min_Max:
  assumes "ps \<noteq> []"
  shows "dimensions ps = Inr (\<lambda>a. (Min (set (column a ps)), Max (set (column a ps))))"
proof -
  have "\<And>a. column a ps \<noteq> []" using assms by (simp add: column_def)
  then have "\<And>a. hd (column a ps) # tl (column a ps) = column a ps" by simp
  then have "\<And>a. fold min (tl (column a ps)) (hd (column a ps)) = Min (set (column a ps))"
       "\<And>a. fold max (tl (column a ps)) (hd (column a ps)) = Max (set (column a ps))"
    by (metis fold_min_Min, metis fold_max_Max)
  then show ?thesis using assms by (simp add: dimensions_def)
qed

lemma overlap_failure_cases:
  "overlap_failure d1 d2 = None \<longleftrightarrow> (\<forall>a. overlapping d1 d2 a)"
  by (auto simp: overlap_failure_def intro: axis.exhaust) (metis axis.exhaust)

subsection \<open>The sections of the query\<close>

lemma concat_split_sizes: "concat (split_sizes xs ns) = take (sum_list ns) xs"
  by (induction ns arbitrary: xs) (simp_all add: take_add)

lemma length_split_sizes: "length (split_sizes xs ns) = length ns"
  by (induction ns arbitrary: xs) simp_all

lemma section_sizes_sum:
  assumes "0 < n"
  shows "sum_list (replicate (m mod n) (m div n + 1) @ replicate (n - m mod n) (m div n)) = m"
proof -
  have "m mod n \<le> n" using assms by (simp add: less_imp_le)
  then have "(m mod n) * (m div n + 1) + (n - m mod n) * (m div n)
               = n * (m div n) + m mod n"
    by (simp add: algebra_simps flip: distrib_right)
  then show ?thesis by (simp add: sum_list_replicate)
qed

lemma concat_array_split:
  assumes "0 < n"
  shows "concat (array_split xs n) = xs"
proof -
  have "concat (array_split xs n)
          = take (sum_list (replicate (length xs mod n) (length xs div n + 1)
                            @ replicate (n - length xs mod n) (length xs div n))) xs"
    unfolding array_split_def Let_def by (rule concat_split_sizes)
  also have "\<dots> = take (length xs) xs"
    by (simp only: section_sizes_sum [OF assms])
  finally show ?thesis by simp
qed

lemma length_array_split: "0 < n \<Longrightarrow> length (array_split xs n) = n"
  by (simp add: array_split_def Let_def length_split_sizes less_imp_le)

lemma query_sections_rejected:
  "chunks \<noteq> [] \<Longrightarrow> query_sections tree 0 distance_max chunks i acc = Inl Query_rejected"
  by (cases chunks) (simp_all add: tree_query_def)

lemma query_sections_flat:
  "0 < i \<Longrightarrow> query_sections tree (Suc 0) distance_max chunks i (Flat acc)
     = Inr (Flat (acc @ concat (map (query_point tree (Suc 0) distance_max)
                                  (map float32 (concat chunks)))))"
  by (induction chunks arbitrary: i acc) (simp_all add: tree_query_def concatenate_def)

lemma query_sections_rows:
  "0 < i \<Longrightarrow> 1 < k \<Longrightarrow> query_sections tree k distance_max chunks i (Rows acc)
     = Inr (Rows (acc @ map (query_point tree k distance_max) (map float32 (concat chunks))))"
  by (induction chunks arbitrary: i acc) (simp_all add: tree_query_def concatenate_def)

lemma query_sections_start:
  assumes "chunks \<noteq> []"
  shows "query_sections tree k distance_max chunks 0 acc
           = tree_query tree (map float32 (concat chunks)) k (Fin 0) distance_max"
proof -
  from assms obtain arr arrs where chunks: "chunks = arr # arrs" by (cases chunks) auto
  consider "k = 0" | "k = Suc 0" | "1 < k" by linarith
  then show ?thesis
  proof cases
    case 1
    then show ?thesis using assms by (simp add: query_sections_rejected tree_query_def)
  next
    case 2
    then show ?thesis using chunks by (simp add: tree_query_def query_sections_flat)
  next
    case 3
    then show ?thesis using chunks by (simp add: tree_query_def query_sections_rows)
  qed
qed

subsection \<open>The writes of \<^verbatim>\<open>transition\<close>\<close>

lemma update_present_keys:
  "map_of al k = Some v \<Longrightarrow> map fst (AList.update k w al) = map fst al"
  by (induction al) (auto split: if_splits)

lemma transfer_nodes_keys:
  "transfer_nodes sv vn tbl g = (r, g') \<Longrightarrow> map fst (nodes g') = map fst (nodes g)"
proof (induction tbl arbitrary: g)
  case Nil
  then show ?case by simp
next
  case (Cons item tbl)
  obtain node node_dict where item: "item = (node, node_dict)" by (cases item)
  show ?case
  proof (cases "node_result sv node_dict")
    case (Inl e)
    with Cons.prems item show ?thesis by simp
  next
    case (Inr result)
    show ?thesis
    proof (cases "map_of (nodes g) node")
      case None
      with Cons.prems item Inr show ?thesis by simp
    next
      case (Some n)
      let ?g = "g\<lparr>nodes := AList.update node (set_value vn result n) (nodes g)\<rparr>"
      from Cons.prems item Inr Some have "transfer_nodes sv vn tbl ?g = (r, g')" by simp
      from Cons.IH [OF this] Some show ?thesis by (simp add: update_present_keys)
    qed
  qed
qed

lemma transfer_nodes_untouched:
  "transfer_nodes sv vn tbl g = (r, g') \<Longrightarrow> node \<notin> fst ` set tbl
     \<Longrightarrow> map_of (nodes g') node = map_of (nodes g) node"
proof (induction tbl arbitrary: g)
  case Nil
  then show ?case by simp
next
  case (Cons item tbl)
  obtain m node_dict where item: "item = (m, node_dict)" by (cases item)
  with Cons.prems have neq: "m \<noteq> node" and rest: "node \<notin> fst ` set tbl" by auto
  show ?case
  proof (cases "node_result sv node_dict")
    case (Inl e)
    with Cons.prems item show ?thesis by simp
  next
    case (Inr result)
    show ?thesis
    proof (cases "map_of (nodes g) m")
      case None
      with Cons.prems item Inr show ?thesis by simp
    next
      case (Some n)
      let ?g = "g\<lparr>nodes := AList.update m (set_value vn result n) (nodes g)\<rparr>"
      from Cons.prems item Inr Some have "transfer_nodes sv vn tbl ?g = (r, g')" by simp
      from Cons.IH [OF this rest] neq show ?thesis by (simp add: update_conv')
    qed
  qed
qed

lemma transfer_nodes_other_fields:
  "transfer_nodes sv vn tbl g = (r, g') \<Longrightarrow> map_of (nodes g) m = Some n0
     \<Longrightarrow> coordinate n0 = c \<Longrightarrow> \<forall>f. f \<noteq> vn \<longrightarrow> map_of (node_values n0) f = F f
     \<Longrightarrow> \<exists>n'. map_of (nodes g') m = Some n' \<and> coordinate n' = c
              \<and> (\<forall>f. f \<noteq> vn \<longrightarrow> map_of (node_values n') f = F f)"
proof (induction tbl arbitrary: g n0)
  case Nil
  then show ?case by auto
next
  case (Cons item tbl)
  obtain node node_dict where item: "item = (node, node_dict)" by (cases item)
  show ?case
  proof (cases "node_result sv node_dict")
    case (Inl e)
    with Cons.prems item show ?thesis by auto
  next
    case (Inr result)
    show ?thesis
    proof (cases "map_of (nodes g) node")
      case None
      with Cons.prems item Inr show ?thesis by auto
    next
      case (Some n1)
      let ?g = "g\<lparr>nodes := AList.update node (set_value vn result n1) (nodes g)\<rparr>"
      from Cons.prems item Inr Some have run: "transfer_nodes sv vn tbl ?g = (r, g')" by simp
      show ?thesis
      proof (cases "node = m")
        case True
        with Some Cons.prems have "n1 = n0" by simp
        with True have look: "map_of (nodes ?g) m = Some (set_value vn result n0)"
          by (simp add: update_conv')
        have keep: "coordinate (set_value vn result n0) = c"
          "\<forall>f. f \<noteq> vn \<longrightarrow> map_of (node_values (set_value vn result n0)) f = F f"
          using Cons.prems(3,4) by (simp_all add: set_value_def update_conv')
        from Cons.IH [OF run look keep] show ?thesis .
      next
        case False
        then have "map_of (nodes ?g) m = Some n0"
          using Cons.prems(2) by (simp add: update_conv')
        from Cons.IH [OF run this Cons.prems(3,4)] show ?thesis .
      qed
    qed
  qed
qed

lemma transfer_nodes_written:
  "transfer_nodes sv vn tbl g = (Inr u, g') \<Longrightarrow> distinct (map fst tbl)
     \<Longrightarrow> (node, node_dict) \<in> set tbl
     \<Longrightarrow> \<exists>n' v. map_of (nodes g') node = Some n' \<and> node_result sv node_dict = Inr v
            \<and> map_of (node_values n') vn = Some v"
proof (induction tbl arbitrary: g)
  case Nil
  then show ?case by simp
next
  case (Cons item tbl)
  obtain m md where item: "item = (m, md)" by (cases item)
  from Cons.prems item obtain result n1 where
    res: "node_result sv md = Inr result" and look: "map_of (nodes g) m = Some n1"
    by (auto split: sum.splits option.splits)
  let ?g = "g\<lparr>nodes := AList.update m (set_value vn result n1) (nodes g)\<rparr>"
  from Cons.prems item res look have run: "transfer_nodes sv vn tbl ?g = (Inr u, g')" by simp
  from Cons.prems item have dist: "distinct (map fst tbl)" and fresh: "m \<notin> fst ` set tbl"
    by auto
  show ?case
  proof (cases "(node, node_dict) \<in> set tbl")
    case True
    from Cons.IH [OF run dist True] show ?thesis .
  next
    case False
    with Cons.prems item have eq: "node = m" "node_dict = md" by auto
    have "map_of (nodes g') m = map_of (nodes ?g) m"
      using transfer_nodes_untouched [OF run fresh] .
    then have "map_of (nodes g') m = Some (set_value vn result n1)"
      by (simp add: update_conv')
    with eq res show ?thesis by (simp add: set_value_def update_conv')
  qed
qed

lemma transition_success:
  assumes "transition src vn tgt st = (Inr b, st')"
  obtains es et tbl g' where
    "map_of (grids st) src = Some es" "map_of (grids st) tgt = Some et"
    "map_of (transform et) src = Some tbl"
    "get_node_values (heap st (grid es)) vn \<noteq> []"
    "transfer_nodes (get_node_values (heap st (grid es)) vn) vn tbl (heap st (grid et))
       = (Inr (), g')"
    "check_value_set_completeness g' vn = Inr ()"
    "st' = emit Info (Transition_successful vn src tgt) (st\<lparr>heap := (heap st)(grid et := g')\<rparr>)"
    "b = True"
  using assms
  by (auto simp: transition_def Let_def split: option.splits if_splits prod.splits sum.splits)


lemma average_loop_exact:
  "average_loop sv items (res, s, f) = Inr (res', s', f')
     \<Longrightarrow> find (\<lambda>r. distance r = Fin 0) items = Some z
     \<Longrightarrow> s' = 0 \<and> map_of sv (node_number z) = Some res'"
proof (induction items arbitrary: s f)
  case Nil
  then show ?case by simp
next
  case (Cons item items)
  show ?case
  proof (cases "distance item = Fin 0")
    case True
    with Cons.prems show ?thesis by (auto split: option.splits)
  next
    case False
    with Cons.prems obtain v w where
      "average_loop sv items (res, s + reciprocal (distance item), py_add f w) = Inr (res', s', f')"
      "find (\<lambda>r. distance r = Fin 0) items = Some z"
      by (auto split: option.splits sum.splits)
    from Cons.IH [OF this] show ?thesis .
  qed
qed

lemma node_result_exact:
  assumes "node_result sv (Some items) = Inr v"
    and "find (\<lambda>r. distance r = Fin 0) items = Some z"
  shows "map_of sv (node_number z) = Some v"
proof -
  from assms(2) obtain item rest where items: "items = item # rest" by (cases items) auto
  from assms(1) items obtain res s f where
    loop: "average_loop sv items (PyNone, 0, Val 0) = Inr (res, s, f)"
    and v: "v = (if \<not> s = 0 then py_divide f s else res)"
    by (auto simp: node_result_def split: sum.splits if_splits)
  from average_loop_exact [OF loop assms(2)] v show ?thesis by simp
qed







subsection \<open>The literal key of \<^verbatim>\<open>update_grid\<close>\<close>

lemma update_grid_other_name_fails:
  assumes "has_key grid_name (grids st)" and "grid_name \<noteq> ''grid_name''"
  shows "\<exists>e st'. update_grid g grid_name st = (Inl e, st')"
proof (cases "has_key ''grid_name'' (grids st)")
  case False
  with assms show ?thesis by (simp add: update_grid_def)
next
  case True
  have "has_key grid_name (AList.delete ''grid_name'' (grids st))"
    using assms by (simp add: has_key_def keys_def delete_keys)
  with assms True show ?thesis by (simp add: update_grid_def add_grid_def)
qed

lemma update_grid_success:
  "update_grid g grid_name st = (Inr b, st') \<Longrightarrow> grid_name = ''grid_name''"
  using update_grid_other_name_fails [of grid_name st g]
  by (cases "has_key grid_name (grids st)") (auto simp: update_grid_def)

subsection \<open>One-dimensional result arrays\<close>

lemma one_dimensional_rows_never_count:
  "build_table grid_1_nodes grid_2_nodes distance_max (map Scalar xs) i (transform_dict, count)
     = Inr (transform_dict', count') \<Longrightarrow> count' = count"
proof (induction xs arbitrary: i transform_dict)
  case Nil
  then show ?case by simp
next
  case (Cons x xs)
  obtain d p where x: "x = (d, p)" by (cases x)
  from Cons.prems x obtain td where
    "build_table grid_1_nodes grid_2_nodes distance_max (map Scalar xs) (i + 1) (td, count)
       = Inr (transform_dict', count')"
    by (auto split: sum.splits if_splits)
  from Cons.IH [OF this] show ?case .
qed

lemma one_dimensional_rows_never_None:
  "build_table grid_1_nodes grid_2_nodes distance_max (map Scalar xs) i (transform_dict, count)
     = Inr (transform_dict', count') \<Longrightarrow> None \<notin> snd ` set transform_dict
   \<Longrightarrow> None \<notin> snd ` set transform_dict'"
proof (induction xs arbitrary: i transform_dict)
  case Nil
  then show ?case by simp
next
  case (Cons x xs)
  obtain d p where x: "x = (d, p)" by (cases x)
  from Cons.prems(1) x obtain key v where
    run: "build_table grid_1_nodes grid_2_nodes distance_max (map Scalar xs) (i + 1)
       (AList.update key (Some v) transform_dict, count) = Inr (transform_dict', count')"
    by (auto split: sum.splits if_splits)
  have "set (AList.update key (Some v) transform_dict)
          \<subseteq> insert (key, Some v) (set transform_dict)"
    by (induction transform_dict) auto
  with Cons.prems(2) have "None \<notin> snd ` set (AList.update key (Some v) transform_dict)"
    by force
  from Cons.IH [OF run this] show ?case .
qed

subsection \<open>The array and the counter of the statistics\<close>

lemma stat_items_population:
  "stat_items items (distances, count)
     = (distances @ filter positive (map distance items),
        count + length (filter (\<lambda>d. \<not> positive d) (map distance items)))"
  by (induction items arbitrary: distances count) simp_all

lemma stat_nodes_population:
  "stat_nodes tbl (distances, count)
     = (distances @ concat (map (\<lambda>(node, node_dict). case node_dict of
                                   None \<Rightarrow> []
                                 | Some items \<Rightarrow> filter positive (map distance items)) tbl),
        count + sum_list (map (\<lambda>(node, node_dict). case node_dict of
                                   None \<Rightarrow> 1
                                 | Some [] \<Rightarrow> 1
                                 | Some items \<Rightarrow>
                                     length (filter (\<lambda>d. \<not> positive d) (map distance items)))
                            tbl))"
proof (induction tbl arbitrary: distances count)
  case Nil
  then show ?case by simp
next
  case (Cons entry tbl)
  obtain node node_dict where e: "entry = (node, node_dict)" by (cases entry)
  show ?case
  proof (cases node_dict)
    case None
    with e Cons.IH show ?thesis by simp
  next
    case (Some items)
    show ?thesis
    proof (cases items)
      case Nil
      with e Some Cons.IH show ?thesis by simp
    next
      case (Cons item rest)
      with e Some Cons.IH show ?thesis
        by (simp add: stat_items_population del: stat_items.simps)
    qed
  qed
qed

subsection \<open>The body of the validation\<close>


lemma validation_body_lookup:
  "map_of (grids st) src = None \<or> map_of (grids st) target = None
     \<Longrightarrow> \<exists>e. validation_body rendering src val target st = (Inl e, st)"
  by (auto simp: validation_body_def Let_def split: option.splits)





section \<open>The claims\<close>

text \<open>
  C1 (worked example). The claim expects the table of B to map node 0 to the records
  (A0, 0), (A1, 1) and node 1 to (A1, 0.5), (A2, 0.5), and the transferred values 10 and 25.
  The method reads the source node at the returned index less one, so on the worked example
  it stores for node 0 the records (A2, 0), (A0, 1) and for node 1 the records (A0, 0.5),
  (A1, 0.5), and \<^verbatim>\<open>transition\<close> then assigns 30 to the first target node and 15 to the
  second.
\<close>

theorem worked_example_runs_shifted:
  "(case find_nearest_neighbors ''A'' ''B'' 2 PInf worked_example of
      (r1, st1) \<Rightarrow>
        r1 = Inr True \<and>
        map_of (grids st1) ''B'' =
          Some \<lparr>transform = [(''A'',
                   [(0, Some [\<lparr>node_number = 2, distance = Fin 0\<rparr>,
                              \<lparr>node_number = 0, distance = Fin 1\<rparr>]),
                    (1, Some [\<lparr>node_number = 0, distance = Fin (1 / 2)\<rparr>,
                              \<lparr>node_number = 1, distance = Fin (1 / 2)\<rparr>])])],
                grid = 2\<rparr> \<and>
        (case transition ''A'' ''v'' ''B'' st1 of
           (r2, st2) \<Rightarrow>
             r2 = Inr True \<and>
             get_node_values (heap st2 2) ''v'' = [(0, Val 30), (1, Val 15)]))"
  apply (simp only: neighbors_worked_example transition_worked_example prod.case)
  apply (simp add: worked_example_neighbors_def worked_example_transferred_def
        grid_B_transferred_def get_node_values_def)
  done

text \<open>
  C2 (update of a registered grid). The claim expects \<^verbatim>\<open>update_grid(new_grid, X)\<close> to replace
  the grid registered under X. The method deletes the key \<^verbatim>\<open>'grid_name'\<close> instead: with
  \<^verbatim>\<open>'A'\<close> registered and no grid of that literal name it raises the KeyError of the \<^verbatim>\<open>del\<close>
  and replaces nothing; with a grid of that literal name it removes that other grid and
  then fails in \<^verbatim>\<open>add_grid\<close>, because \<^verbatim>\<open>'A'\<close> is still there.
\<close>

theorem update_grid_deletes_literal_key:
  "update_grid 2 ''A'' worked_example = (Inl (Key_missing ''grid_name''), worked_example) \<and>
   update_grid 2 ''A'' literal_key_example =
     (Inl (Grid_already_exists ''A''),
      literal_key_example\<lparr>grids := [(''A'', \<lparr>transform = [], grid = 1\<rparr>)]\<rparr>)"
  by (simp add: update_grid_def add_grid_def has_key_def keys_def worked_example_def
        literal_key_example_def)

text \<open>
  C3 (lonely nodes). The claim expects, for every number of neighbours, that a target node
  whose neighbours are all beyond the distance bound gets the entry \<^verbatim>\<open>None\<close> and is counted.
  With two neighbours the method does so: on the grids S and T with the bound 0.5 the
  second target node gets \<^verbatim>\<open>None\<close> and the warning reports one node. With one neighbour the
  \<^verbatim>\<open>continue\<close> of the distance check skips the test for an empty list: the same node keeps
  the empty list, nothing is counted and no warning is logged.
\<close>

theorem one_neighbor_skips_lonely_check:
  "find_nearest_neighbors ''S'' ''T'' 1 (Fin (1 / 2)) cutoff_example =
     (Inr True,
      cutoff_example
        \<lparr>grids := [(''S'', \<lparr>transform = [], grid = 1\<rparr>),
                   (''T'', \<lparr>transform = [(''S'',
                       [(0, Some [\<lparr>node_number = 1, distance = Fin 0\<rparr>]), (1, Some [])])],
                     grid = 2\<rparr>)],
          logged := [(Info, Neighbors_found ''S'' ''T'')]\<rparr>)
   \<and> find_nearest_neighbors ''S'' ''T'' 2 (Fin (1 / 2)) cutoff_example =
     (Inr True,
      cutoff_example
        \<lparr>grids := [(''S'', \<lparr>transform = [], grid = 1\<rparr>),
                   (''T'', \<lparr>transform = [(''S'',
                       [(0, Some [\<lparr>node_number = 1, distance = Fin 0\<rparr>]), (1, None)])],
                     grid = 2\<rparr>)],
          logged := [(Warning, Lonely_warning 1 ''S'' ''T'' (Fin (1 / 2))),
                     (Info, Neighbors_found ''S'' ''T'')]\<rparr>)"
  by (simp only: neighbors_cutoff_one_neighbor neighbors_cutoff_two_neighbors simp_thms)

text \<open>
  C4 (exact-match short circuit). Let a \<^verbatim>\<open>transition\<close> succeed, and let the table it used
  hold for a target node a list with a record at distance exactly 0, \<open>z\<close> being the first
  such record. Then the value of the transferred field at that target node is the value
  that the source grid had for the node of \<open>z\<close>: no weighting is applied, whatever the other
  records of the list are.
\<close>

theorem exact_match_short_circuit:
  assumes "transition src_grid_name value_name target_grid_name st = (Inr True, st')"
    and "map_of (grids st) src_grid_name = Some src_grid"
    and "map_of (grids st) target_grid_name = Some target_grid"
    and "map_of (transform target_grid) src_grid_name = Some tbl"
    and "distinct (keys tbl)"
    and "(node, Some items) \<in> set tbl"
    and "find (\<lambda>r. distance r = Fin 0) items = Some z"
  shows "\<exists>n' v. map_of (nodes (heap st' (grid target_grid))) node = Some n'
           \<and> map_of (node_values n') value_name = Some v
           \<and> map_of (get_node_values (heap st (grid src_grid)) value_name) (node_number z)
               = Some v"
proof -
  from assms(1) obtain es et tbl' g' where run:
    "map_of (grids st) src_grid_name = Some es" "map_of (grids st) target_grid_name = Some et"
    "map_of (transform et) src_grid_name = Some tbl'"
    "transfer_nodes (get_node_values (heap st (grid es)) value_name) value_name tbl'
       (heap st (grid et)) = (Inr (), g')"
    "st' = emit Info (Transition_successful value_name src_grid_name target_grid_name)
             (st\<lparr>heap := (heap st)(grid et := g')\<rparr>)"
    by (rule transition_success)
  from run(1-3) assms(2-4) have eq: "es = src_grid" "et = target_grid" "tbl' = tbl" by simp_all
  from assms(5) have "distinct (map fst tbl)" by (simp add: keys_def)
  from transfer_nodes_written [OF run(4) [unfolded eq] this assms(6)]
  obtain n' v where w: "map_of (nodes g') node = Some n'"
    "node_result (get_node_values (heap st (grid src_grid)) value_name) (Some items) = Inr v"
    "map_of (node_values n') value_name = Some v" by blast
  have "heap st' (grid target_grid) = g'" using run(5) eq by (simp add: emit_def)
  moreover have "map_of (get_node_values (heap st (grid src_grid)) value_name) (node_number z)
                   = Some v"
    using node_result_exact [OF w(2) assms(7)] .
  ultimately show ?thesis using w by auto
qed

theorem exact_match_short_circuit_witness:
  "\<exists>n'. map_of (nodes (heap worked_example_transferred 2)) 0 = Some n'
      \<and> map_of (node_values n') ''v'' = Some (Val 30)
      \<and> map_of (get_node_values (heap worked_example_neighbors 1) ''v'') 2 = Some (Val 30)"
proof -
  let ?tbl = "[(0::nat, Some [\<lparr>node_number = 2, distance = Fin 0\<rparr>,
                        \<lparr>node_number = 0, distance = Fin 1\<rparr>]),
               (1, Some [\<lparr>node_number = 0, distance = Fin (1 / 2)\<rparr>,
                         \<lparr>node_number = 1, distance = Fin (1 / 2)\<rparr>])]"
  let ?et = "\<lparr>transform = [(''A'', ?tbl)], grid = 2\<rparr>"
  let ?items = "[\<lparr>node_number = 2, distance = Fin 0\<rparr>, \<lparr>node_number = 0, distance = Fin 1\<rparr>]"
  have 4: "map_of (transform ?et) ''A'' = Some ?tbl" by simp
  have 5: "distinct (keys ?tbl)" by (simp add: keys_def)
  have 6: "(0, Some ?items) \<in> set ?tbl" by simp
  have 7: "find (\<lambda>r. distance r = Fin 0) ?items = Some \<lparr>node_number = 2, distance = Fin 0\<rparr>"
    by simp
  from exact_match_short_circuit [OF transition_worked_example neighbors_grids 4 5 6 7]
  obtain n' v where "map_of (nodes (heap worked_example_transferred 2)) 0 = Some n'"
    "map_of (node_values n') ''v'' = Some v"
    "map_of (get_node_values (heap worked_example_neighbors 1) ''v'') 2 = Some v"
    by auto
  moreover have "map_of (get_node_values (heap worked_example_neighbors 1) ''v'') 2 = Some (Val 30)"
    unfolding source_values_worked_example by simp
  ultimately show ?thesis by auto
qed



text \<open>
  C6 (overlap rejection). For two registered, non-empty grids whose coordinate ranges
  do not intersect on some axis \<open>a\<close>, \<^verbatim>\<open>find_nearest_neighbors\<close> raises the error of
  non-overlapping grids for an axis \<open>b\<close> (the first one checked that fails), whatever the
  number of neighbours and the distance bound are. The registry, with every stored table,
  and the grid objects are unchanged; the one effect is the error line in the log.
\<close>

theorem overlap_rejection:
  assumes "map_of (grids st) grid_name_1 = Some e1"
    and "map_of (grids st) grid_name_2 = Some e2"
    and "nodes (heap st (grid e1)) \<noteq> []"
    and "nodes (heap st (grid e2)) \<noteq> []"
    and "Max (set (column a (get_coordinates_array (heap st (grid e1)))))
           < Min (set (column a (get_coordinates_array (heap st (grid e2)))))
         \<or> Max (set (column a (get_coordinates_array (heap st (grid e2)))))
           < Min (set (column a (get_coordinates_array (heap st (grid e1)))))"
  shows "\<exists>b st'. find_nearest_neighbors grid_name_1 grid_name_2 neighbors_quantity distance_max st
                    = (Inl (Not_overlapping b), st')
                 \<and> grids st' = grids st \<and> heap st' = heap st
                 \<and> logged st' = logged st @ [(Error, Overlap_failure b)]"
proof -
  let ?c1 = "get_coordinates_array (heap st (grid e1))"
  let ?c2 = "get_coordinates_array (heap st (grid e2))"
  let ?d1 = "\<lambda>a. (Min (set (column a ?c1)), Max (set (column a ?c1)))"
  let ?d2 = "\<lambda>a. (Min (set (column a ?c2)), Max (set (column a ?c2)))"
  have ne: "?c1 \<noteq> []" "?c2 \<noteq> []"
    using assms(3,4) by (simp_all add: get_coordinates_array_def)
  have d: "dimensions ?c1 = Inr ?d1" "dimensions ?c2 = Inr ?d2"
    using ne by (simp_all add: dimensions_Min_Max)
  have "\<not> overlapping ?d1 ?d2 a"
    using assms(5) by (auto simp: overlapping_def)
  then have "overlap_failure ?d1 ?d2 \<noteq> None"
    by (simp add: overlap_failure_cases) blast
  then obtain b where b: "overlap_failure ?d1 ?d2 = Some b" by blast
  have "find_nearest_neighbors grid_name_1 grid_name_2 neighbors_quantity distance_max st
          = (Inl (Not_overlapping b), emit Error (Overlap_failure b) st)"
    using assms(1,2) d b by (simp add: find_nearest_neighbors_def)
  then show ?thesis by (simp add: emit_def)
qed

theorem overlap_rejection_witness:
  "\<exists>b st'. find_nearest_neighbors ''A'' ''C'' 2 PInf apart_example
              = (Inl (Not_overlapping b), st')
      \<and> grids st' = grids apart_example \<and> heap st' = heap apart_example
      \<and> logged st' = logged apart_example @ [(Error, Overlap_failure b)]"
proof (rule overlap_rejection [where a = X_axis])
  show "map_of (grids apart_example) ''A'' = Some \<lparr>transform = [], grid = 1\<rparr>"
    by (simp add: apart_example_def)
  show "map_of (grids apart_example) ''C'' = Some \<lparr>transform = [], grid = 3\<rparr>"
    by (simp add: apart_example_def)
  show "nodes (heap apart_example (grid \<lparr>transform = [], grid = 1\<rparr>)) \<noteq> []"
    by (simp add: apart_example_def grid_A_def)
  show "nodes (heap apart_example (grid \<lparr>transform = [], grid = 3\<rparr>)) \<noteq> []"
    by (simp add: apart_example_def grid_C_def)
  show "Max (set (column X_axis (get_coordinates_array
                (heap apart_example (grid \<lparr>transform = [], grid = 1\<rparr>)))))
          < Min (set (column X_axis (get_coordinates_array
                (heap apart_example (grid \<lparr>transform = [], grid = 3\<rparr>)))))
        \<or> Max (set (column X_axis (get_coordinates_array
                (heap apart_example (grid \<lparr>transform = [], grid = 3\<rparr>)))))
          < Min (set (column X_axis (get_coordinates_array
                (heap apart_example (grid \<lparr>transform = [], grid = 1\<rparr>)))))"
    by (simp add: apart_example_def grid_A_def grid_C_def get_coordinates_array_def column_def)
qed

text \<open>
  C7 (chunk invariance), as amended. For every positive number of sections, the chunked
  query of \<^verbatim>\<open>find_nearest_neighbors\<close> returns exactly the distance and index arrays of one
  query for the whole target point set with the same number of neighbours and the same
  distance bound; the table is built from these arrays alone, so it is the same table.
\<close>

theorem chunk_invariance:
  assumes "0 < splits"
  shows "chunked_query splits tree grid_2_coordinates neighbors_quantity distance_max
           = single_batch_query tree grid_2_coordinates neighbors_quantity distance_max"
proof -
  have "array_split (map float32 grid_2_coordinates) splits \<noteq> []"
    using length_array_split [OF assms, of "map float32 grid_2_coordinates"] assms by auto
  then have "chunked_query splits tree grid_2_coordinates neighbors_quantity distance_max
          = tree_query tree
              (map float32 (concat (array_split (map float32 grid_2_coordinates) splits)))
              neighbors_quantity (Fin 0) distance_max"
    using assms by (simp add: chunked_query_def query_sections_start)
  also have "map float32 (concat (array_split (map float32 grid_2_coordinates) splits))
               = map float32 grid_2_coordinates"
    using assms by (simp add: concat_array_split float32_def)
  finally show ?thesis by (simp add: single_batch_query_def)
qed

theorem chunk_invariance_witness:
  "chunked_query 10 [(0, 0, 0), (1, 0, 0), (2, 0, 0)] [(0, 0, 0), (3 / 2, 0, 0)] 2 PInf
     = single_batch_query [(0, 0, 0), (1, 0, 0), (2, 0, 0)] [(0, 0, 0), (3 / 2, 0, 0)] 2 PInf
   \<and> single_batch_query [(0, 0, 0), (1, 0, 0), (2, 0, 0)] [(0, 0, 0), (3 / 2, 0, 0)] 2 PInf
     = Inr (Rows [[(Fin 0, 0), (Fin 1, 1)], [(Fin (1 / 2), 1), (Fin (1 / 2), 2)]])"
proof -
  have "(0::nat) < 10" by simp
  from chunk_invariance [OF this] chunked_query_worked_example show ?thesis by simp
qed

text \<open>
  C7 as stated also says that the chunked path computes the table that the single-shot
  branch of the source would compute. That branch passes \<^verbatim>\<open>distance_max\<close> in the position
  of \<^verbatim>\<open>eps\<close> and searches without a distance bound. On the grids S and T with the bound 1
  the second target node lies at distance exactly 1 from both source nodes: the bounded
  search of the chunked path returns no neighbour and the node gets \<^verbatim>\<open>None\<close>, the
  single-shot call returns both and the check \<^verbatim>\<open>distance > distance_max\<close> keeps both.
\<close>

theorem single_shot_branch_differs:
  "(case (chunked_query 10 (map float32 (get_coordinates_array grid_S))
            (get_coordinates_array grid_T) 2 (Fin 1),
          single_shot_query (map float32 (get_coordinates_array grid_S))
            (get_coordinates_array grid_T) 2 (Fin 1)) of
      (Inr chunked, Inr single) \<Rightarrow>
        chunked \<noteq> single
        \<and> build_table (keys (nodes grid_S)) (keys (nodes grid_T)) (Fin 1) (rows_of chunked) 0 ([], 0)
            = Inr ([(0, Some [\<lparr>node_number = 1, distance = Fin 0\<rparr>]), (1, None)], 1)
        \<and> build_table (keys (nodes grid_S)) (keys (nodes grid_T)) (Fin 1) (rows_of single) 0 ([], 0)
            = Inr ([(0, Some [\<lparr>node_number = 1, distance = Fin 0\<rparr>]),
                    (1, Some [\<lparr>node_number = 1, distance = Fin 1\<rparr>,
                              \<lparr>node_number = 0, distance = Fin 1\<rparr>])], 0)
    | _ \<Rightarrow> False)"
proof -
  have c: "map float32 (get_coordinates_array grid_S) = [(0, 0, 0), (2, 0, 0)]"
    "get_coordinates_array grid_T = [(0, 0, 0), (1, 0, 0)]"
    by (simp_all add: get_coordinates_array_def grid_S_def grid_T_def float32_def)
  have k: "keys (nodes grid_S) = [0, 1]" "keys (nodes grid_T) = [0, 1]"
    by (simp_all add: keys_def grid_S_def grid_T_def)
  show ?thesis
    unfolding c k chunked_query_bound_one single_shot_query_bound_one
    by (simp only: prod.case sum.case table_chunked_bound_one table_single_shot_bound_one)
       simp
qed

text \<open>
  C8 (statistics). The claim expects the reported lonely count to be the number of target
  nodes whose entry is \<^verbatim>\<open>None\<close>. The distance array is as the claim says, the positive
  distances. The counter, however, is also incremented for every record at distance 0: for
  the table of the worked example, where both entries are lists and none is \<^verbatim>\<open>None\<close>, the
  method reports one lonely node.
\<close>

theorem statistics_count_exact_match_as_lonely:
  "nearest_neighbors_stat ''B'' worked_example_neighbors =
     (Inr True,
      worked_example_neighbors
        \<lparr>logged := [(Info, Neighbors_found ''A'' ''B''),
                    (Info, Statistics_for ''B'' 2),
                    (Info, Neighborhood ''A'' [Fin 1, Fin (1 / 2), Fin (1 / 2)] 1),
                    (Info, End_of_statistics)]\<rparr>)
   \<and> map_of (grids worked_example_neighbors) ''B'' =
       Some \<lparr>transform = [(''A'',
                [(0, Some [\<lparr>node_number = 2, distance = Fin 0\<rparr>,
                           \<lparr>node_number = 0, distance = Fin 1\<rparr>]),
                 (1, Some [\<lparr>node_number = 0, distance = Fin (1 / 2)\<rparr>,
                           \<lparr>node_number = 1, distance = Fin (1 / 2)\<rparr>])])], grid = 2\<rparr>"
  by (simp only: statistics_worked_example neighbors_grids simp_thms)




text \<open>
  C10 (frame of \<^verbatim>\<open>transition\<close>), as amended. Let a \<^verbatim>\<open>transition\<close> succeed between two names
  that hold two different \<^verbatim>\<open>Grid\<close> objects. Then \<^verbatim>\<open>self.grids\<close> is unchanged (the registered
  names, their objects and every stored table), the source object and every object but the
  target are unchanged, the target keeps its nodes in their order, a target node that is
  not a key of the used table is unchanged, and every target node keeps its coordinate and
  all fields but the transferred one.
\<close>

theorem transition_frame:
  assumes "transition src_grid_name value_name target_grid_name st = (Inr True, st')"
    and "map_of (grids st) src_grid_name = Some src_grid"
    and "map_of (grids st) target_grid_name = Some target_grid"
    and "map_of (transform target_grid) src_grid_name = Some tbl"
    and "grid src_grid \<noteq> grid target_grid"
  shows "grids st' = grids st
     \<and> heap st' (grid src_grid) = heap st (grid src_grid)
     \<and> (\<forall>r. r \<noteq> grid target_grid \<longrightarrow> heap st' r = heap st r)
     \<and> keys (nodes (heap st' (grid target_grid))) = keys (nodes (heap st (grid target_grid)))
     \<and> (\<forall>m. m \<notin> set (keys tbl) \<longrightarrow>
           map_of (nodes (heap st' (grid target_grid))) m
             = map_of (nodes (heap st (grid target_grid))) m)
     \<and> (\<forall>m n. map_of (nodes (heap st (grid target_grid))) m = Some n \<longrightarrow>
           (\<exists>n'. map_of (nodes (heap st' (grid target_grid))) m = Some n'
              \<and> coordinate n' = coordinate n
              \<and> (\<forall>f. f \<noteq> value_name \<longrightarrow>
                    map_of (node_values n') f = map_of (node_values n) f)))"
proof -
  from assms(1) obtain es et tbl' g' where run:
    "map_of (grids st) src_grid_name = Some es" "map_of (grids st) target_grid_name = Some et"
    "map_of (transform et) src_grid_name = Some tbl'"
    "transfer_nodes (get_node_values (heap st (grid es)) value_name) value_name tbl'
       (heap st (grid et)) = (Inr (), g')"
    "st' = emit Info (Transition_successful value_name src_grid_name target_grid_name)
             (st\<lparr>heap := (heap st)(grid et := g')\<rparr>)"
    by (rule transition_success)
  from run(1-3) assms(2-4) have eq: "es = src_grid" "et = target_grid" "tbl' = tbl" by simp_all
  note tr = run(4) [unfolded eq]
  have st': "grids st' = grids st" "heap st' = (heap st)(grid target_grid := g')"
    using run(5) eq by (simp_all add: emit_def)
  have 1: "heap st' (grid src_grid) = heap st (grid src_grid)"
    using st' assms(5) by simp
  have 2: "\<forall>r. r \<noteq> grid target_grid \<longrightarrow> heap st' r = heap st r"
    using st' by simp
  have g': "heap st' (grid target_grid) = g'" using st' by simp
  have 3: "keys (nodes g') = keys (nodes (heap st (grid target_grid)))"
    using transfer_nodes_keys [OF tr] by (simp add: keys_def)
  have 4: "\<forall>m. m \<notin> set (keys tbl) \<longrightarrow>
             map_of (nodes g') m = map_of (nodes (heap st (grid target_grid))) m"
    using transfer_nodes_untouched [OF tr] by (simp add: keys_def)
  have 5: "\<forall>m n. map_of (nodes (heap st (grid target_grid))) m = Some n \<longrightarrow>
           (\<exists>n'. map_of (nodes g') m = Some n' \<and> coordinate n' = coordinate n
              \<and> (\<forall>f. f \<noteq> value_name \<longrightarrow>
                    map_of (node_values n') f = map_of (node_values n) f))"
    using transfer_nodes_other_fields [OF tr] by blast
  show ?thesis using st'(1) 1 2 3 4 5 by (simp only: g' simp_thms)
qed

theorem transition_frame_witness:
  "grids worked_example_transferred = grids worked_example_neighbors
     \<and> heap worked_example_transferred 1 = heap worked_example_neighbors 1
     \<and> keys (nodes (heap worked_example_transferred 2)) = keys (nodes (heap worked_example_neighbors 2))"
proof -
  have 4: "map_of (transform \<lparr>transform = [(''A'',
              [(0::nat, Some [\<lparr>node_number = 2, distance = Fin 0\<rparr>,
                         \<lparr>node_number = 0, distance = Fin 1\<rparr>]),
               (1, Some [\<lparr>node_number = 0, distance = Fin (1 / 2)\<rparr>,
                         \<lparr>node_number = 1, distance = Fin (1 / 2)\<rparr>])])], grid = 2\<rparr>) ''A''
            = Some [(0, Some [\<lparr>node_number = 2, distance = Fin 0\<rparr>,
                         \<lparr>node_number = 0, distance = Fin 1\<rparr>]),
               (1, Some [\<lparr>node_number = 0, distance = Fin (1 / 2)\<rparr>,
                         \<lparr>node_number = 1, distance = Fin (1 / 2)\<rparr>])]" by simp
  have 5: "grid \<lparr>transform = [], grid = 1\<rparr> \<noteq> grid \<lparr>transform = [(''A'',
              [(0::nat, Some [\<lparr>node_number = 2, distance = Fin 0\<rparr>,
                         \<lparr>node_number = 0, distance = Fin 1\<rparr>]),
               (1, Some [\<lparr>node_number = 0, distance = Fin (1 / 2)\<rparr>,
                         \<lparr>node_number = 1, distance = Fin (1 / 2)\<rparr>])])], grid = 2\<rparr>" by simp
  from transition_frame [OF transition_worked_example neighbors_grids 4 5]
  show ?thesis by simp
qed

text \<open>
  C10 as stated asks only for two different names. The registry holds references, and two
  names may hold one \<^verbatim>\<open>Grid\<close> object: with grid A registered as \<^verbatim>\<open>'A'\<close> and as \<^verbatim>\<open>'A2'\<close>, a
  successful \<^verbatim>\<open>transition('A', 'v', 'A2')\<close> writes into the object that is also the source, and
  the field values of the source grid change.
\<close>

theorem transition_changes_aliased_source:
  "(case find_nearest_neighbors ''A'' ''A2'' 2 PInf alias_example of
      (r1, st1) \<Rightarrow>
        r1 = Inr True
        \<and> map_of (grids st1) ''A'' = Some \<lparr>transform = [], grid = 1\<rparr>
        \<and> (case transition ''A'' ''v'' ''A2'' st1 of
              (r2, st2) \<Rightarrow>
                r2 = Inr True \<and> ''A'' \<noteq> ''A2''
                \<and> get_node_values (heap st1 1) ''v'' = [(0, Val 10), (1, Val 20), (2, Val 30)]
                \<and> get_node_values (heap st2 1) ''v'' = [(0, Val 30), (1, Val 10), (2, Val 20)]
                \<and> get_node_values (heap st2 1) ''v'' \<noteq> get_node_values (heap st1 1) ''v''))"
  apply (simp only: neighbors_alias prod.case)
  apply (simp add: alias_example_def alias_example_neighbors_def transition_def
        get_node_values_def grid_A_def node_result_def weighted_def py_add_def py_divide_def
        reciprocal_def set_value_def check_value_set_completeness_def has_key_def keys_def
        emit_def)
  done

end
